theory Spec2Isabelle
  imports Main
begin

section \<open>Data model of internal/action/step/move.go\<close>

text \<open>
  Go's \<open>int\<close> is 64 bits wide on the platforms the program is built for. Values are
  kept as HOL integers; where the source adds, subtracts or multiplies, the
  wrap-around of the 64-bit two's complement result is written out with \<open>int64\<close>.
\<close>

definition int64 :: "int \<Rightarrow> int" where
  "int64 n = (n + 2 ^ 63) mod 2 ^ 64 - 2 ^ 63"

text \<open>\<open>data.Position\<close>: a pair of ints.\<close>

record position =
  X :: int
  Y :: int

definition zero_position :: position where
  "zero_position = \<lparr>X = 0, Y = 0\<rparr>"

text \<open>
  Time instants (\<open>time.Time\<close>) are nanoseconds relative to the Unix epoch, durations
  (\<open>time.Duration\<close>) are nanoseconds. \<open>time.Time{}\<close> is the first instant of year 1.
  \<open>Time.Sub\<close> saturates at the largest and smallest duration.
\<close>

type_synonym time = int
type_synonym duration = int

definition Millisecond :: duration where
  "Millisecond = 1000000"

definition Second :: duration where
  "Second = 1000000000"

definition zero_time :: time where
  "zero_time = - 62135596800 * 1000000000"

definition maxDuration :: duration where
  "maxDuration = 2 ^ 63 - 1"

definition minDuration :: duration where
  "minDuration = - (2 ^ 63)"

definition time_sub :: "time \<Rightarrow> time \<Rightarrow> duration" where
  "time_sub t u =
     (let d = t - u
      in if d > maxDuration then maxDuration
         else if d < minDuration then minDuration
         else d)"

text \<open>Game objects and monsters, with the fields the function reads.\<close>

record object =
  ID :: nat
  Selectable :: bool
  ObjPosition :: position

record monster =
  UnitID :: nat
  MonPosition :: position

text \<open>\<open>data.MonsterFilter\<close> is a function from monster lists to monster lists.\<close>

type_synonym monster_filter = "monster list \<Rightarrow> monster list"

datatype skill = Teleport | Conviction | Vigor | OtherSkill nat

text \<open>
  The errors \<open>MoveTo\<close> returns: its four named errors, the error built with
  \<open>fmt.Errorf\<close> when collision data does not load (it carries the area), and the
  errors handed through from \<open>interruptDropIfRequested\<close> and \<open>InteractObject\<close>
  (opaque values of those collaborators, told apart by a number).
\<close>

datatype move_error =
    ErrMonstersInPath
  | ErrPlayerStuck
  | ErrPlayerRoundTrip
  | ErrNoPath
  | ErrCollisionData nat
  | ErrCollaborator nat

subsection \<open>MoveOpts and the option constructors\<close>

record MoveOpts =
  distanceOverride :: "int option"
  stationaryMinDistance :: "int option"
  stationaryMaxDistance :: "int option"
  ignoreShrines :: bool
  ignoreMonsters :: bool
  ignoreItems :: bool
  monsterFilters :: "monster_filter list"
  clearPathOverride :: "int option"

text \<open>\<open>&MoveOpts{}\<close>: every field at its zero value.\<close>

definition empty_opts :: MoveOpts where
  "empty_opts =
     \<lparr>distanceOverride = None, stationaryMinDistance = None, stationaryMaxDistance = None,
      ignoreShrines = False, ignoreMonsters = False, ignoreItems = False,
      monsterFilters = [], clearPathOverride = None\<rparr>"

text \<open>
  A \<open>MoveOption\<close> is a closure over \<open>*MoveOpts\<close>; the package builds them with seven
  constructors. Each constructor of the datatype stands for the closure the Go
  constructor of the same name returns, and \<open>apply_option\<close> is the closure's body.
\<close>

datatype MoveOption =
    WithDistanceToFinish int
  | WithStationaryDistance int int
  | WithIgnoreMonsters
  | WithIgnoreItems
  | IgnoreShrines
  | WithMonsterFilter "monster_filter list"
  | WithClearPathOverride int

fun apply_option :: "MoveOption \<Rightarrow> MoveOpts \<Rightarrow> MoveOpts" where
  "apply_option (WithDistanceToFinish distance) opts = opts\<lparr>distanceOverride := Some distance\<rparr>"
| "apply_option (WithStationaryDistance mn mx) opts =
     opts\<lparr>stationaryMinDistance := Some mn, stationaryMaxDistance := Some mx\<rparr>"
| "apply_option WithIgnoreMonsters opts = opts\<lparr>ignoreMonsters := True\<rparr>"
| "apply_option WithIgnoreItems opts = opts\<lparr>ignoreItems := True\<rparr>"
| "apply_option IgnoreShrines opts = opts\<lparr>ignoreShrines := True\<rparr>"
| "apply_option (WithMonsterFilter filters) opts =
     opts\<lparr>monsterFilters := monsterFilters opts @ filters\<rparr>"
| "apply_option (WithClearPathOverride c) opts = opts\<lparr>clearPathOverride := Some c\<rparr>"

text \<open>\<open>for _, o := range options { o(opts) }\<close>\<close>

fun apply_options :: "MoveOption list \<Rightarrow> MoveOpts \<Rightarrow> MoveOpts" where
  "apply_options [] opts = opts"
| "apply_options (opt # rest) opts = apply_options rest (apply_option opt opts)"

subsection \<open>What a pass of the loop observes\<close>

text \<open>
  \<open>MoveTo\<close> reads the game through \<open>ctx\<close>: the data of the last
  \<open>RefreshGameData\<close>, the path finder, the character, the clock. A \<open>snapshot\<close>
  holds what one pass of the loop can observe there. The collaborators are not part
  of this file, so each is a field: a function of the arguments the source passes.
  The data is taken as fixed between two refreshes of the same pass.
  \<^item> \<open>Clock n\<close> is the value of the \<open>time.Now()\<close> (or the instant \<open>time.Since\<close>
    reads) at source line \<open>n\<close>.
  \<^item> \<open>InteractResult k\<close> is the result of the \<open>k\<close>-th call of \<open>InteractObject\<close> in
    the door retry loop of the pass (\<open>None\<close> is \<open>nil\<close>).
  \<^item> \<open>WaitClock i\<close> and \<open>GridLoaded i\<close> are the clock and the state of the collision
    grid at the \<open>i\<close>-th test of the loop that waits for collision data, and
    \<open>AreaAfterWait\<close> is the player's area read when the wait gives up.
\<close>

record snapshot =
  PendingDrop :: "move_error option"
  PlayerArea :: nat
  IsTown :: bool
  Ping :: int
  PlayerPosition :: position
  AreaOrigin :: position
  CanTeleport :: bool
  Stunned :: bool
  RightSkill :: skill
  PlayerCastDuration :: duration
  DistanceFromMe :: "position \<Rightarrow> int"
  IsObstacleBetween :: "position \<Rightarrow> position \<Rightarrow> bool"
  GetPositionPast :: "position \<Rightarrow> position"
  HasDoorBetween :: "position \<Rightarrow> position \<Rightarrow> object option"
  LineOfSight :: "position \<Rightarrow> position \<Rightarrow> bool"
  Enemies :: "monster_filter list \<Rightarrow> monster list"
  ShouldIgnoreMonster :: "monster \<Rightarrow> bool"
  GetClosestDestructible :: "position \<Rightarrow> object option"
  GetClosestDoor :: "position \<Rightarrow> object option"
  KeyBindingForSkill :: "skill \<Rightarrow> nat option"
  MustKBForSkill :: "skill \<Rightarrow> nat"
  GetPath :: "position \<Rightarrow> position list \<times> bool"
  CalculateDistance :: "position \<Rightarrow> position \<Rightarrow> int"
  GameCoordsToScreenCords :: "int \<Rightarrow> int \<Rightarrow> int \<times> int"
  PingMultiplier :: int
  RandomDurationMs :: "int \<Rightarrow> int \<Rightarrow> duration"
  InteractResult :: "nat \<Rightarrow> move_error option"
  Clock :: "nat \<Rightarrow> time"
  WaitClock :: "nat \<Rightarrow> time"
  GridLoaded :: "nat \<Rightarrow> bool"
  AreaAfterWait :: nat

text \<open>\<open>time.Since(t)\<close> at source line \<open>n\<close>.\<close>

definition since :: "snapshot \<Rightarrow> nat \<Rightarrow> time \<Rightarrow> duration" where
  "since snap n t = time_sub (Clock snap n) t"

text \<open>The fields of the character configuration that \<open>MoveTo\<close> reads.\<close>

record character_cfg =
  ClassIsDragondin :: bool
  InteractWithShrines :: bool
  ClearPathDist :: int

text \<open>What \<open>MoveTo\<close> does to its collaborators, in order. Log lines are left out.\<close>

datatype action =
    PauseIfNotPriority
  | RefreshGameData
  | MoveThroughPath "position list" duration
  | RandomMovement
  | InteractWith nat
  | Click int int
  | PressKeyBinding nat
  | SleepMs int
  | TimeSleep duration

subsection \<open>The local variables of MoveTo\<close>

text \<open>
  All variables that live across passes of the loop, under the names of the source.
  \<open>opts\<close> is the \<open>MoveOpts\<close> value behind the pointer.
\<close>

record locals =
  opts :: MoveOpts
  minDistanceToFinishMoving :: int
  isDragondin :: bool
  stepLastMonsterCheck :: time
  stuckCheckStartTime :: time
  roundTripReferencePosition :: position
  roundTripCheckStartTime :: time
  walkDuration :: duration
  lastRun :: time
  previousPosition :: position
  clearPathDist :: int
  overrideClearPathDist :: bool
  blocked :: bool
  obstacleBypassAttempts :: int
  startArea :: nat

definition DistanceToFinishMoving :: int where
  "DistanceToFinishMoving = 4"

definition stepMonsterCheckInterval :: duration where
  "stepMonsterCheckInterval = 100 * Millisecond"

definition blockThreshold :: duration where
  "blockThreshold = 200 * Millisecond"

definition stuckThreshold :: duration where
  "stuckThreshold = 2 * Second"

definition roundTripThreshold :: duration where
  "roundTripThreshold = 10 * Second"

definition roundTripMaxRadius :: int where
  "roundTripMaxRadius = 8"

definition maxObstacleBypassAttempts :: int where
  "maxObstacleBypassAttempts = 3"

text \<open>
  \<open>int(float64(ping) * 0.5)\<close>: half the ping, truncated towards zero (exact below
  \<open>2 ^ 53\<close>).
\<close>

definition pingAdjustment :: "int \<Rightarrow> int" where
  "pingAdjustment p = (if 0 \<le> p then p div 2 else - ((- p) div 2))"

text \<open>
  Lines 108 to 164: the options are applied in order, the finish distance is taken
  from them, \<open>ignoreShrines\<close> is then assigned from the character configuration, and
  the timers and counters are set up. \<open>entry\<close> is the game data at the call.
\<close>

definition init_locals :: "character_cfg \<Rightarrow> snapshot \<Rightarrow> MoveOption list \<Rightarrow> locals" where
  "init_locals cfg entry options =
     (let o1 = apply_options options empty_opts;
          minDist = (case distanceOverride o1 of None \<Rightarrow> DistanceToFinishMoving | Some d \<Rightarrow> d);
          o2 = o1\<lparr>ignoreShrines := \<not> InteractWithShrines cfg\<rparr>;
          walk = (if \<not> IsTown entry
                  then RandomDurationMs entry (int64 (300 + pingAdjustment (Ping entry)))
                         (int64 (400 + pingAdjustment (Ping entry)))
                  else RandomDurationMs entry (int64 (500 + pingAdjustment (Ping entry)))
                         (int64 (800 + pingAdjustment (Ping entry))))
      in \<lparr>opts = o2,
          minDistanceToFinishMoving = minDist,
          isDragondin = ClassIsDragondin cfg,
          stepLastMonsterCheck = zero_time,
          stuckCheckStartTime = Clock entry 130,
          roundTripReferencePosition = PlayerPosition entry,
          roundTripCheckStartTime = Clock entry 133,
          walkDuration = walk,
          lastRun = zero_time,
          previousPosition = zero_position,
          clearPathDist = (case clearPathOverride o2 of None \<Rightarrow> ClearPathDist cfg | Some c \<Rightarrow> c),
          overrideClearPathDist = (clearPathOverride o2 \<noteq> None),
          blocked = False,
          obstacleBypassAttempts = 0,
          startArea = PlayerArea entry\<rparr>)"

section \<open>The loop of MoveTo, stage by stage\<close>

text \<open>
  A pass of the loop ends in one of three ways: \<open>MoveTo\<close> returns (\<open>Return None\<close> is
  \<open>return nil\<close>), the loop starts its next pass (\<open>Continue\<close>), or the pass never
  ends (\<open>Hang\<close>). A stage is a block of the loop body: it yields the way the pass
  ended there, or \<open>None\<close> when control falls through to the next block, with the
  locals as the block leaves them and what it did to the collaborators.
\<close>

datatype outcome = Return "move_error option" | Continue | Hang

type_synonym stage_result = "outcome option \<times> locals \<times> action list"

text \<open>Conversions between world coordinates and coordinates relative to the area origin.\<close>

definition to_grid :: "position \<Rightarrow> position \<Rightarrow> position" where
  "to_grid origin p = \<lparr>X = int64 (X p - X origin), Y = int64 (Y p - Y origin)\<rparr>"

definition to_world :: "position \<Rightarrow> position \<Rightarrow> position" where
  "to_world origin p = \<lparr>X = int64 (X p + X origin), Y = int64 (Y p + Y origin)\<rparr>"

text \<open>Lines 167 to 175: the pending drop request ends the call before the refresh.\<close>

definition pending_interrupt :: "snapshot \<Rightarrow> locals \<Rightarrow> stage_result" where
  "pending_interrupt snap l =
     (case PendingDrop snap of
        Some e \<Rightarrow> (Some (Return (Some e)), l, [PauseIfNotPriority])
      | None \<Rightarrow> (None, l, [PauseIfNotPriority, RefreshGameData]))"

text \<open>
  Lines 182 to 191: the wait for collision data. The result says whether the grid
  was found loaded, and at which test of the loop condition the loop ended. The
  clock is the collaborator's, so the loop need not end: that is the value \<open>None\<close>.
\<close>

partial_function (option) wait_for_collision :: "snapshot \<Rightarrow> time \<Rightarrow> nat \<Rightarrow> (bool \<times> nat) option" where
  "wait_for_collision snap deadline i =
     (if WaitClock snap i < deadline
      then (if GridLoaded snap i then Some (True, i)
            else wait_for_collision snap deadline (Suc i))
      else Some (False, i))"

declare wait_for_collision.simps [code]

text \<open>What \<open>i\<close> unsuccessful polls did: a sleep and a refresh each.\<close>

definition polls :: "nat \<Rightarrow> action list" where
  "polls i = concat (replicate i [SleepMs 100, RefreshGameData])"

text \<open>Lines 177 to 194.\<close>

definition area_change :: "snapshot \<Rightarrow> locals \<Rightarrow> stage_result" where
  "area_change snap l =
     (if PlayerArea snap \<noteq> startArea l
      then (case wait_for_collision snap (Clock snap 181 + 2 * Second) 0 of
              None \<Rightarrow> (Some Hang, l, [])
            | Some (loaded, i) \<Rightarrow>
                if loaded then (Some (Return None), l, polls i)
                else (Some (Return (Some (ErrCollisionData (AreaAfterWait snap)))), l, polls i))
      else (None, l, []))"

text \<open>
  Lines 210 to 228, and again lines 469 to 484: move to a point just past the
  destination. \<open>line\<close> is the source line of the \<open>time.Now()\<close>.
\<close>

definition bypass_step :: "snapshot \<Rightarrow> position \<Rightarrow> nat \<Rightarrow> locals \<Rightarrow> locals \<times> action list" where
  "bypass_step snap dest line l =
     (let movePastPos = GetPositionPast snap dest;
          movePastGridPos = to_grid (AreaOrigin snap) movePastPos;
          l1 = l\<lparr>lastRun := Clock snap line\<rparr>;
          l2 = (if previousPosition l1 \<noteq> PlayerPosition snap
                then l1\<lparr>obstacleBypassAttempts := 0\<rparr> else l1);
          l3 = l2\<lparr>previousPosition := PlayerPosition snap\<rparr>
      in (l3, [MoveThroughPath [movePastGridPos] (walkDuration l3), SleepMs 100]))"

text \<open>Lines 196 to 233: the obstacle check when teleporting and close to the destination.\<close>

definition teleport_precheck :: "snapshot \<Rightarrow> position \<Rightarrow> locals \<Rightarrow> stage_result" where
  "teleport_precheck snap dest l =
     (let currentDistanceToDest = DistanceFromMe snap dest
      in if CanTeleport snap \<and> currentDistanceToDest \<le> minDistanceToFinishMoving l
            \<and> obstacleBypassAttempts l < maxObstacleBypassAttempts
         then (if IsObstacleBetween snap (PlayerPosition snap) dest
               then (let l1 = l\<lparr>obstacleBypassAttempts := int64 (obstacleBypassAttempts l + 1)\<rparr>;
                         (l2, acts) = bypass_step snap dest 220 l1
                     in (Some Continue, l2, acts))
               else (None, l, []))
         else (None, l, []))"

text \<open>Lines 235 to 243: the destination is reached.\<close>

definition terminal_check :: "snapshot \<Rightarrow> position \<Rightarrow> locals \<Rightarrow> stage_result" where
  "terminal_check snap dest l =
     (let currentDistanceToDest = DistanceFromMe snap dest
      in if currentDistanceToDest \<le> minDistanceToFinishMoving l then (Some (Return None), l, [])
         else if blocked l
         then (if currentDistanceToDest \<le> int64 (minDistanceToFinishMoving l * 2)
               then (Some (Return None), l, [])
               else (None, l, []))
         else (None, l, []))"

text \<open>
  Lines 251 to 260: \<open>for range 5\<close>. \<open>n\<close> passes of the loop are left, \<open>k\<close> calls of
  \<open>InteractObject\<close> were made, \<open>interactErr\<close> is the variable of that name.
\<close>

fun door_retry :: "snapshot \<Rightarrow> object \<Rightarrow> nat \<Rightarrow> nat \<Rightarrow> move_error option \<Rightarrow> move_error option \<times> action list" where
  "door_retry snap door 0 k interactErr = (interactErr, [])"
| "door_retry snap door (Suc n) k interactErr =
     (case InteractResult snap k of
        None \<Rightarrow> (None, [InteractWith (ID door)])
      | Some e \<Rightarrow>
          (case door_retry snap door n (Suc k) (Some e) of
             (r, acts) \<Rightarrow> (r, [InteractWith (ID door), RandomMovement, SleepMs 250] @ acts)))"

text \<open>Lines 245 to 265: doors on the way, when walking.\<close>

definition door_handling :: "snapshot \<Rightarrow> position \<Rightarrow> locals \<Rightarrow> stage_result" where
  "door_handling snap dest l =
     (if \<not> CanTeleport snap
      then (case HasDoorBetween snap (PlayerPosition snap) dest of
              Some doorToOpen \<Rightarrow>
                (case door_retry snap doorToOpen 5 0 None of
                   (None, acts) \<Rightarrow> (None, l, acts)
                 | (Some e, acts) \<Rightarrow> (Some (Return (Some e)), l, acts))
            | None \<Rightarrow> (None, l, []))
      else (None, l, []))"

text \<open>Lines 267 to 273.\<close>

definition stationary_check :: "snapshot \<Rightarrow> position \<Rightarrow> locals \<Rightarrow> stage_result" where
  "stationary_check snap dest l =
     (let currentDistanceToDest = DistanceFromMe snap dest
      in case (stationaryMinDistance (opts l), stationaryMaxDistance (opts l)) of
           (Some mn, Some mx) \<Rightarrow>
             if currentDistanceToDest \<ge> mn \<and> currentDistanceToDest \<le> mx
             then (Some (Return None), l, [])
             else (None, l, [])
         | _ \<Rightarrow> (None, l, []))"

text \<open>Lines 275 to 281: when teleporting, sleep out the cast duration.\<close>

definition cast_gate :: "snapshot \<Rightarrow> locals \<Rightarrow> stage_result" where
  "cast_gate snap l =
     (if CanTeleport snap
      then (if since snap 277 (lastRun l) < PlayerCastDuration snap
            then (Some Continue, l,
                  [TimeSleep (int64 (PlayerCastDuration snap - since snap 278 (lastRun l)))])
            else (None, l, []))
      else (None, l, []))"

text \<open>
  Lines 288 to 304: the loop over the enemies. The result is \<open>monsterFound\<close>. The
  tests are nested as in the source: distance, then line of sight, then door.
\<close>

fun monster_scan :: "snapshot \<Rightarrow> int \<Rightarrow> monster list \<Rightarrow> bool" where
  "monster_scan snap cpd [] = False"
| "monster_scan snap cpd (m # ms) =
     (if ShouldIgnoreMonster snap m then monster_scan snap cpd ms
      else if DistanceFromMe snap (MonPosition m) \<le> cpd
      then (if LineOfSight snap (PlayerPosition snap) (MonPosition m)
            then (if HasDoorBetween snap (PlayerPosition snap) (MonPosition m) = None
                  then True
                  else monster_scan snap cpd ms)
            else monster_scan snap cpd ms)
      else monster_scan snap cpd ms)"

text \<open>The condition of line 284.\<close>

definition monster_check_due :: "snapshot \<Rightarrow> locals \<Rightarrow> bool" where
  "monster_check_due snap l =
     (\<not> ignoreMonsters (opts l) \<and> \<not> IsTown snap
      \<and> (\<not> CanTeleport snap \<or> overrideClearPathDist l)
      \<and> clearPathDist l > 0
      \<and> since snap 284 (stepLastMonsterCheck l) > stepMonsterCheckInterval)"

text \<open>Lines 283 to 309.\<close>

definition monster_check :: "snapshot \<Rightarrow> locals \<Rightarrow> stage_result" where
  "monster_check snap l =
     (if monster_check_due snap l
      then (let l1 = l\<lparr>stepLastMonsterCheck := Clock snap 285\<rparr>;
                monsterFound = monster_scan snap (clearPathDist l1) (Enemies snap (monsterFilters (opts l1)))
            in if monsterFound then (Some (Return (Some ErrMonstersInPath)), l1, [])
               else (None, l1, []))
      else (None, l, []))"

text \<open>Lines 311 to 326: \<open>blocked\<close> is cleared, then the round trip detection.\<close>

definition round_trip_check :: "snapshot \<Rightarrow> locals \<Rightarrow> stage_result" where
  "round_trip_check snap l =
     (let currentPosition = PlayerPosition snap;
          l1 = l\<lparr>blocked := False\<rparr>
      in if CalculateDistance snap currentPosition (roundTripReferencePosition l1) \<le> roundTripMaxRadius
         then (let timeInRoundtrip = since snap 315 (roundTripCheckStartTime l1)
               in if timeInRoundtrip > roundTripThreshold
                  then (Some (Return (Some ErrPlayerRoundTrip)), l1, [])
                  else if timeInRoundtrip > roundTripThreshold div 2
                  then (None, l1\<lparr>blocked := True\<rparr>, [])
                  else (None, l1, []))
         else (None, l1\<lparr>roundTripReferencePosition := currentPosition,
                          roundTripCheckStartTime := Clock snap 325\<rparr>, []))"

text \<open>Lines 328 to 340: the stuck detection.\<close>

definition stuck_check :: "snapshot \<Rightarrow> locals \<Rightarrow> stage_result" where
  "stuck_check snap l =
     (let currentPosition = PlayerPosition snap
      in if currentPosition = previousPosition l \<and> \<not> Stunned snap
         then (let stuckTime = since snap 329 (stuckCheckStartTime l)
               in if stuckTime > stuckThreshold
                  then (Some (Return (Some ErrPlayerStuck)), l, [])
                  else if stuckTime > blockThreshold
                  then (None, l\<lparr>blocked := True\<rparr>, [])
                  else (None, l, []))
         else (None, l\<lparr>stuckCheckStartTime := Clock snap 339\<rparr>, []))"

text \<open>Lines 342 to 362: when blocked, hit the closest destructible or open the closest door.\<close>

definition blocked_recovery :: "snapshot \<Rightarrow> locals \<Rightarrow> stage_result" where
  "blocked_recovery snap l =
     (if blocked l
      then (case GetClosestDestructible snap (PlayerPosition snap) of
              Some obj \<Rightarrow>
                if \<not> Selectable obj then (Some Continue, l, [])
                else (case GameCoordsToScreenCords snap (X (ObjPosition obj)) (Y (ObjPosition obj)) of
                        (x, y) \<Rightarrow> (None, l, [Click x y, TimeSleep (int64 (Millisecond * PingMultiplier snap))]))
            | None \<Rightarrow>
                (case GetClosestDoor snap (PlayerPosition snap) of
                   Some doorToOpen \<Rightarrow> (None, l, [InteractWith (ID doorToOpen)])
                 | None \<Rightarrow> (None, l, [])))
      else (None, l, []))"

text \<open>Lines 364 to 385: keep the skill for moving on the right button.\<close>

definition keep_skill :: "snapshot \<Rightarrow> skill \<Rightarrow> nat \<Rightarrow> action list" where
  "keep_skill snap sk kb = (if RightSkill snap \<noteq> sk then [PressKeyBinding kb] else [])"

definition navigation_skill :: "snapshot \<Rightarrow> locals \<Rightarrow> stage_result" where
  "navigation_skill snap l =
     (if CanTeleport snap
      then (None, l, keep_skill snap Teleport (MustKBForSkill snap Teleport))
      else if isDragondin l
      then (case KeyBindingForSkill snap Conviction of
              Some kb \<Rightarrow> (None, l, keep_skill snap Conviction kb)
            | None \<Rightarrow>
                (case KeyBindingForSkill snap Vigor of
                   Some kb \<Rightarrow> (None, l, keep_skill snap Vigor kb)
                 | None \<Rightarrow> (None, l, [])))
      else (case KeyBindingForSkill snap Vigor of
              Some kb \<Rightarrow> (None, l, keep_skill snap Vigor kb)
            | None \<Rightarrow> (None, l, [])))"

text \<open>
  Lines 419 to 436: the loop over the first \<open>maxSegmentsToCheck\<close> points of the path,
  here the list it is given. \<open>cur\<close> is \<open>currentCheckPos\<close>, \<open>i\<close> the index. The result is
  \<open>lastValidIndex\<close> and the calls of \<open>IsObstacleBetween\<close> the loop made, in order.
\<close>

fun scan_segments :: "snapshot \<Rightarrow> position \<Rightarrow> position list \<Rightarrow> int \<Rightarrow> int \<Rightarrow> int \<times> (position \<times> position) list" where
  "scan_segments snap cur [] i lastValidIndex = (lastValidIndex, [])"
| "scan_segments snap cur (pathPoint # rest) i lastValidIndex =
     (let pathWorldPos = to_world (AreaOrigin snap) pathPoint
      in if \<not> IsObstacleBetween snap cur pathWorldPos
         then (case scan_segments snap pathWorldPos rest (i + 1) i of
                 (r, queries) \<Rightarrow> (r, (cur, pathWorldPos) # queries))
         else (lastValidIndex, [(cur, pathWorldPos)]))"

definition maxSegmentsToCheck :: "position list \<Rightarrow> int" where
  "maxSegmentsToCheck path = (if 10 > int (length path) then int (length path) else 10)"

text \<open>
  Lines 402 to 492: the look-ahead when teleporting. \<open>Bypass\<close> is the branch of lines
  463 to 486; \<open>UsePath\<close> carries the path handed to the movement.
\<close>

datatype lookahead_result = Bypass | UsePath "position list"

definition lookahead :: "snapshot \<Rightarrow> position \<Rightarrow> position list \<Rightarrow> lookahead_result" where
  "lookahead snap dest path =
     (if CanTeleport snap \<and> length path > 1
      then (let maxSeg = maxSegmentsToCheck path;
                lastValidIndex = fst (scan_segments snap (PlayerPosition snap) (take (nat maxSeg) path) 0 (- 1))
            in if lastValidIndex \<ge> 0
               then (let (path1, validPathIndex) =
                           (if lastValidIndex < maxSeg - 1 \<and> lastValidIndex < int (length path) - 1
                            then (let lastValidWorldPos = to_world (AreaOrigin snap) (path ! nat lastValidIndex)
                                  in if \<not> IsObstacleBetween snap lastValidWorldPos dest
                                     then (take (nat (lastValidIndex + 1)) path, - 1)
                                     else (path, lastValidIndex))
                            else (path, - 1))
                     in if validPathIndex > 0 then UsePath (drop (nat validPathIndex) path1)
                        else UsePath path1)
               else Bypass)
      else UsePath path)"

text \<open>Lines 494 to 502: the values are updated and the movement is issued.\<close>

definition commit :: "snapshot \<Rightarrow> position list \<Rightarrow> locals \<Rightarrow> stage_result" where
  "commit snap path l =
     (let l1 = l\<lparr>lastRun := Clock snap 495\<rparr>;
          l2 = (if previousPosition l1 \<noteq> PlayerPosition snap
                then l1\<lparr>obstacleBypassAttempts := 0\<rparr> else l1);
          l3 = l2\<lparr>previousPosition := PlayerPosition snap\<rparr>
      in (None, l3, [MoveThroughPath path (walkDuration l3)]))"

text \<open>Lines 387 to 502: the path is computed, checked ahead and walked.\<close>

definition path_step :: "snapshot \<Rightarrow> position \<Rightarrow> locals \<Rightarrow> stage_result" where
  "path_step snap dest l =
     (case GetPath snap dest of
        (path, found) \<Rightarrow>
          if \<not> found then (Some (Return (Some ErrNoPath)), l, [])
          else if length path = 0 then (Some (Return None), l, [])
          else (case lookahead snap dest path of
                  Bypass \<Rightarrow> (case bypass_step snap dest 477 l of (l', acts) \<Rightarrow> (Some Continue, l', acts))
                | UsePath path' \<Rightarrow> commit snap path' l))"

subsection \<open>One pass, and the loop\<close>

text \<open>Stages run in order until one ends the pass.\<close>

fun run_stages :: "(locals \<Rightarrow> stage_result) list \<Rightarrow> locals \<Rightarrow> stage_result" where
  "run_stages [] l = (None, l, [])"
| "run_stages (stage # rest) l =
     (case stage l of
        (Some out, l', acts) \<Rightarrow> (Some out, l', acts)
      | (None, l', acts) \<Rightarrow>
          (case run_stages rest l' of (r, l'', acts') \<Rightarrow> (r, l'', acts @ acts')))"

text \<open>
  The body of the loop, lines 167 to 502, in the order of the source. The stages
  are numbered from 0: 0 pending interrupt, 1 area change, 2 teleport obstacle
  check, 3 destination reached, 4 doors, 5 stationary distance, 6 cast duration,
  7 monsters, 8 round trip, 9 stuck, 10 recovery when blocked, 11 skill,
  12 path and movement.
\<close>

definition stages :: "snapshot \<Rightarrow> position \<Rightarrow> (locals \<Rightarrow> stage_result) list" where
  "stages snap dest =
     [pending_interrupt snap, area_change snap, teleport_precheck snap dest,
      terminal_check snap dest, door_handling snap dest, stationary_check snap dest,
      cast_gate snap, monster_check snap, round_trip_check snap, stuck_check snap,
      blocked_recovery snap, navigation_skill snap, path_step snap dest]"

text \<open>
  \<open>reaches k snap dest l l' acts\<close>: in the pass that starts with locals \<open>l\<close>, control
  arrives at stage \<open>k\<close> with locals \<open>l'\<close>, having done \<open>acts\<close>.
\<close>

definition reaches :: "nat \<Rightarrow> snapshot \<Rightarrow> position \<Rightarrow> locals \<Rightarrow> locals \<Rightarrow> action list \<Rightarrow> bool" where
  "reaches k snap dest l l' acts = (run_stages (take k (stages snap dest)) l = (None, l', acts))"

text \<open>One pass of the loop; falling off the end of the body starts the next pass.\<close>

definition iteration :: "snapshot \<Rightarrow> position \<Rightarrow> locals \<Rightarrow> outcome \<times> locals \<times> action list" where
  "iteration snap dest l =
     (case run_stages (stages snap dest) l of
        (Some out, l', acts) \<Rightarrow> (out, l', acts)
      | (None, l', acts) \<Rightarrow> (Continue, l', acts))"

text \<open>
  The loop. \<open>world n\<close> is what pass \<open>n\<close> observes. The result is the returned error
  (\<open>None\<close> for \<open>nil\<close>) and everything done to the collaborators; a loop that never
  returns has the value \<open>None\<close>.
\<close>

partial_function (option) move_loop :: "(nat \<Rightarrow> snapshot) \<Rightarrow> position \<Rightarrow> nat \<Rightarrow> locals \<Rightarrow> action list \<Rightarrow> (move_error option \<times> action list) option" where
  "move_loop world dest n l sofar =
     (case iteration (world n) dest l of
        (out, l', acts) \<Rightarrow>
          (case out of
             Return r \<Rightarrow> Some (r, sofar @ acts)
           | Continue \<Rightarrow> move_loop world dest (Suc n) l' (sofar @ acts)
           | Hang \<Rightarrow> None))"

declare move_loop.simps [code]

definition MoveTo :: "character_cfg \<Rightarrow> snapshot \<Rightarrow> (nat \<Rightarrow> snapshot) \<Rightarrow> position \<Rightarrow> MoveOption list \<Rightarrow> (move_error option \<times> action list) option" where
  "MoveTo cfg entry world dest options = move_loop world dest 0 (init_locals cfg entry options) []"

text \<open>The locals at the start of pass \<open>n\<close>, when the loop gets that far.\<close>

fun locals_at :: "(nat \<Rightarrow> snapshot) \<Rightarrow> position \<Rightarrow> locals \<Rightarrow> nat \<Rightarrow> locals option" where
  "locals_at world dest l0 0 = Some l0"
| "locals_at world dest l0 (Suc n) =
     (case locals_at world dest l0 n of
        None \<Rightarrow> None
      | Some l \<Rightarrow>
          (case iteration (world n) dest l of
             (Continue, l', acts) \<Rightarrow> Some l'
           | _ \<Rightarrow> None))"

section \<open>The path stuck detector\<close>

text \<open>
  Modelled from the spec: the source of \<open>PathStuckDetector\<close> (package \<open>action\<close>)
  is not among the repository's files here, only its tests are. The state is that
  of section 3 of the specification; the blacklist is kept in insertion order.
\<close>

record detector =
  lastPosition :: position
  lastArea :: nat
  stuckSince :: time
  blacklistedPoints :: "position list"
  enabled :: bool

text \<open>
  Modelled from the spec: \<open>OnStuckDetected\<close> is missing from the source. Section
  4.1: it records \<open>currentPosition\<close> as blacklisted and, if \<open>nextIntendedPosition\<close>
  differs from it, records that as a second, independent entry.
\<close>

definition OnStuckDetected :: "position \<Rightarrow> position \<Rightarrow> detector \<Rightarrow> detector" where
  "OnStuckDetected currentPosition nextIntendedPosition d =
     (let d1 = d\<lparr>blacklistedPoints := blacklistedPoints d @ [currentPosition]\<rparr>
      in if nextIntendedPosition \<noteq> currentPosition
         then d1\<lparr>blacklistedPoints := blacklistedPoints d1 @ [nextIntendedPosition]\<rparr>
         else d1)"

text \<open>
  Modelled from the spec: \<open>IsPointBlacklisted\<close> is missing from the source. Section
  4.1: true iff some blacklisted entry lies within the blacklist radius of the
  point. The specification fixes neither the radius nor the distance, so the
  radius test is the parameter \<open>near\<close>: \<open>near b pt\<close> says that the entry \<open>b\<close> lies
  within the radius of \<open>pt\<close>.
\<close>

definition IsPointBlacklisted :: "(position \<Rightarrow> position \<Rightarrow> bool) \<Rightarrow> detector \<Rightarrow> position \<Rightarrow> bool" where
  "IsPointBlacklisted near d pt = list_ex (\<lambda>b. near b pt) (blacklistedPoints d)"

text \<open>
  Modelled from the spec: \<open>GetBlacklistedPoints\<close> is missing from the source.
  Section 4.1: a snapshot of the entries, in insertion order.
\<close>

definition GetBlacklistedPoints :: "detector \<Rightarrow> position list" where
  "GetBlacklistedPoints d = blacklistedPoints d"

text \<open>
  Modelled from the spec: \<open>NewPathStuckDetector\<close> is missing from the source. A
  fresh detector has nothing blacklisted and is enabled, as the tests expect.
\<close>

definition NewPathStuckDetector :: detector where
  "NewPathStuckDetector =
     \<lparr>lastPosition = zero_position, lastArea = 0, stuckSince = zero_time,
      blacklistedPoints = [], enabled = True\<rparr>"

section \<open>A sample game\<close>

text \<open>
  A concrete game state on which the properties below are run: a walking character
  at (10, 10) in a dungeon area, no obstacle, no door, no enemy, a path of three
  points to (50, 50), the clock at 3 s. Distances are the larger of the two
  coordinate differences.
\<close>

definition sample_dest :: position where
  "sample_dest = \<lparr>X = 50, Y = 50\<rparr>"

definition sample_cfg :: character_cfg where
  "sample_cfg = \<lparr>ClassIsDragondin = False, InteractWithShrines = True, ClearPathDist = 5\<rparr>"

definition sample_snapshot :: snapshot where
  "sample_snapshot =
     \<lparr>PendingDrop = None, PlayerArea = 2, IsTown = False, Ping = 40,
      PlayerPosition = \<lparr>X = 10, Y = 10\<rparr>, AreaOrigin = \<lparr>X = 0, Y = 0\<rparr>,
      CanTeleport = False, Stunned = False, RightSkill = Vigor,
      PlayerCastDuration = 400 * Millisecond,
      DistanceFromMe = (\<lambda>p. max \<bar>X p - 10\<bar> \<bar>Y p - 10\<bar>),
      IsObstacleBetween = (\<lambda>a b. False),
      GetPositionPast = (\<lambda>p. \<lparr>X = X p + 2, Y = Y p + 2\<rparr>),
      HasDoorBetween = (\<lambda>a b. None),
      LineOfSight = (\<lambda>a b. True),
      Enemies = (\<lambda>filters. []),
      ShouldIgnoreMonster = (\<lambda>m. False),
      GetClosestDestructible = (\<lambda>p. None),
      GetClosestDoor = (\<lambda>p. None),
      KeyBindingForSkill = (\<lambda>sk. None),
      MustKBForSkill = (\<lambda>sk. 7),
      GetPath = (\<lambda>d. ([\<lparr>X = 20, Y = 20\<rparr>, \<lparr>X = 30, Y = 30\<rparr>, \<lparr>X = 50, Y = 50\<rparr>], True)),
      CalculateDistance = (\<lambda>a b. max \<bar>X a - X b\<bar> \<bar>Y a - Y b\<bar>),
      GameCoordsToScreenCords = (\<lambda>x y. (x, y)),
      PingMultiplier = 100,
      RandomDurationMs = (\<lambda>a b. a * Millisecond),
      InteractResult = (\<lambda>k. None),
      Clock = (\<lambda>n. 3 * Second),
      WaitClock = (\<lambda>i. 3 * Second + int i * (100 * Millisecond)),
      GridLoaded = (\<lambda>i. False),
      AreaAfterWait = 3\<rparr>"

text \<open>The locals of a call without options, entered in the sample state.\<close>

definition sample_locals :: locals where
  "sample_locals = init_locals sample_cfg sample_snapshot []"

text \<open>One enemy, two units from the player.\<close>

definition sample_enemy :: monster where
  "sample_enemy = \<lparr>UnitID = 1, MonPosition = \<lparr>X = 12, Y = 12\<rparr>\<rparr>"

definition sample_enemies :: "monster_filter list \<Rightarrow> monster list" where
  "sample_enemies filters = fold (\<lambda>f ms. f ms) filters [sample_enemy]"

text \<open>The player has not moved since the last pass, and the stuck timer started 3 s ago.\<close>

definition sample_stuck_locals :: locals where
  "sample_stuck_locals = sample_locals\<lparr>previousPosition := \<lparr>X = 10, Y = 10\<rparr>, stuckCheckStartTime := 0\<rparr>"

text \<open>The round trip timer started 11 s ago.\<close>

definition sample_round_trip_locals :: locals where
  "sample_round_trip_locals = sample_locals\<lparr>roundTripCheckStartTime := - 8 * Second\<rparr>"



text \<open>Whether a list of actions holds a movement command (\<open>MoveThroughPath\<close>).\<close>

definition issues_movement :: "action list \<Rightarrow> bool" where
  "issues_movement acts = list_ex (\<lambda>a. case a of MoveThroughPath p d \<Rightarrow> True | _ \<Rightarrow> False) acts"

text \<open>The planner finds no path; the planner finds the empty path.\<close>

definition sample_no_path :: snapshot where
  "sample_no_path = sample_snapshot\<lparr>GetPath := (\<lambda>d. ([], False))\<rparr>"

definition sample_empty_path :: snapshot where
  "sample_empty_path = sample_snapshot\<lparr>GetPath := (\<lambda>d. ([], True))\<rparr>"


text \<open>The enemy is there: for a walking character, and for a teleporting one.\<close>

definition sample_walk_enemy :: snapshot where
  "sample_walk_enemy = sample_snapshot\<lparr>Enemies := sample_enemies\<rparr>"

definition sample_teleport_enemy :: snapshot where
  "sample_teleport_enemy = sample_snapshot\<lparr>CanTeleport := True, Enemies := sample_enemies\<rparr>"

text \<open>The last monster check was exactly 100 ms ago.\<close>

definition sample_recent_check_locals :: locals where
  "sample_recent_check_locals = sample_locals\<lparr>stepLastMonsterCheck := 3 * Second - 100 * Millisecond\<rparr>"

text \<open>
  A teleporting character two units from its destination, with an obstacle in
  between.
\<close>

definition sample_near_dest :: position where
  "sample_near_dest = \<lparr>X = 12, Y = 12\<rparr>"

definition sample_teleport_walled :: snapshot where
  "sample_teleport_walled =
     sample_snapshot\<lparr>CanTeleport := True, IsObstacleBetween := (\<lambda>a b. True)\<rparr>"

text \<open>
  A game of several passes: the sample state at pass 0, and from pass 1 on the
  same state 300 ms later (the player has not moved). The destination is seven
  units away.
\<close>

definition sample_later :: snapshot where
  "sample_later = sample_snapshot\<lparr>Clock := (\<lambda>n. 3300 * Millisecond)\<rparr>"

definition sample_world :: "nat \<Rightarrow> snapshot" where
  "sample_world n = (if n = 0 then sample_snapshot else sample_later)"

definition sample_mid_dest :: position where
  "sample_mid_dest = \<lparr>X = 17, Y = 17\<rparr>"

text \<open>The number of calls of \<open>InteractObject\<close> in a list of actions.\<close>

definition count_interactions :: "action list \<Rightarrow> nat" where
  "count_interactions acts = length (filter (\<lambda>a. case a of InteractWith i \<Rightarrow> True | _ \<Rightarrow> False) acts)"

text \<open>A door in the way that no interaction opens.\<close>

definition sample_door :: object where
  "sample_door = \<lparr>ID = 9, Selectable = True, ObjPosition = \<lparr>X = 11, Y = 11\<rparr>\<rparr>"

definition sample_locked_door :: snapshot where
  "sample_locked_door =
     sample_snapshot\<lparr>HasDoorBetween := (\<lambda>a b. Some sample_door),
       InteractResult := (\<lambda>k. Some (ErrCollaborator k))\<rparr>"

text \<open>The call started in another area than the one the player is in now.\<close>

definition sample_moved_locals :: locals where
  "sample_moved_locals = sample_locals\<lparr>startArea := 1\<rparr>"

text \<open>
  A teleporting character in the sample state, and a call whose last movement was
  100 ms ago (the cast takes 400 ms): with the stuck timer started 3 s ago, and
  with the round trip reference far away at (100, 100).
\<close>

definition sample_teleport :: snapshot where
  "sample_teleport = sample_snapshot\<lparr>CanTeleport := True\<rparr>"

definition sample_casting_locals :: locals where
  "sample_casting_locals =
     sample_locals\<lparr>lastRun := 3 * Second - 100 * Millisecond, stuckCheckStartTime := 0\<rparr>"

definition sample_casting_far_locals :: locals where
  "sample_casting_far_locals =
     sample_locals\<lparr>lastRun := 3 * Second - 100 * Millisecond,
       roundTripReferencePosition := \<lparr>X = 100, Y = 100\<rparr>,
       roundTripCheckStartTime := 0\<rparr>"

section \<open>Properties\<close>

subsection \<open>The stuck detector's blacklist\<close>

text \<open>
  Claim C9. \<open>OnStuckDetected p q\<close> adds exactly two entries to the blacklist of any
  detector state when \<open>q\<close> differs from \<open>p\<close> and exactly one when \<open>q = p\<close>; the old
  entries stay, in their order, and every point that was blacklisted is
  blacklisted afterwards.
\<close>

theorem OnStuckDetected_entries:
  "length (GetBlacklistedPoints (OnStuckDetected p q d))
     = length (GetBlacklistedPoints d) + (if q \<noteq> p then 2 else 1)
   \<and> take (length (GetBlacklistedPoints d)) (GetBlacklistedPoints (OnStuckDetected p q d))
       = GetBlacklistedPoints d
   \<and> (\<forall>pt. IsPointBlacklisted near d pt \<longrightarrow> IsPointBlacklisted near (OnStuckDetected p q d) pt)"
  by (simp add: OnStuckDetected_def GetBlacklistedPoints_def IsPointBlacklisted_def Let_def list_ex_iff)

theorem OnStuckDetected_entries_witness:
  "length (GetBlacklistedPoints (OnStuckDetected \<lparr>X = 100, Y = 100\<rparr> \<lparr>X = 107, Y = 107\<rparr> NewPathStuckDetector)) = 2
   \<and> length (GetBlacklistedPoints (OnStuckDetected \<lparr>X = 100, Y = 100\<rparr> \<lparr>X = 100, Y = 100\<rparr> NewPathStuckDetector)) = 1
   \<and> IsPointBlacklisted (\<lambda>b pt. \<bar>X b - X pt\<bar> \<le> 5 \<and> \<bar>Y b - Y pt\<bar> \<le> 5)
        (OnStuckDetected \<lparr>X = 200, Y = 200\<rparr> \<lparr>X = 207, Y = 207\<rparr>
           (OnStuckDetected \<lparr>X = 100, Y = 100\<rparr> \<lparr>X = 107, Y = 107\<rparr> NewPathStuckDetector))
        \<lparr>X = 103, Y = 103\<rparr>"
proof -
  let ?near = "\<lambda>b pt. \<bar>X b - X pt\<bar> \<le> (5::int) \<and> \<bar>Y b - Y pt\<bar> \<le> (5::int)"
  let ?d1 = "OnStuckDetected \<lparr>X = 100, Y = 100\<rparr> \<lparr>X = 107, Y = 107\<rparr> NewPathStuckDetector"
  have old: "IsPointBlacklisted ?near ?d1 \<lparr>X = 103, Y = 103\<rparr>"
    by (simp add: OnStuckDetected_def IsPointBlacklisted_def NewPathStuckDetector_def)
  have a: "length (GetBlacklistedPoints ?d1) = 2"
    using OnStuckDetected_entries [of "\<lparr>X = 100, Y = 100\<rparr>" "\<lparr>X = 107, Y = 107\<rparr>" NewPathStuckDetector ?near]
    by (simp add: GetBlacklistedPoints_def NewPathStuckDetector_def)
  have b: "length (GetBlacklistedPoints (OnStuckDetected \<lparr>X = 100, Y = 100\<rparr> \<lparr>X = 100, Y = 100\<rparr> NewPathStuckDetector)) = 1"
    using OnStuckDetected_entries [of "\<lparr>X = 100, Y = 100\<rparr>" "\<lparr>X = 100, Y = 100\<rparr>" NewPathStuckDetector ?near]
    by (simp add: GetBlacklistedPoints_def NewPathStuckDetector_def)
  have c: "IsPointBlacklisted ?near (OnStuckDetected \<lparr>X = 200, Y = 200\<rparr> \<lparr>X = 207, Y = 207\<rparr> ?d1) \<lparr>X = 103, Y = 103\<rparr>"
    using OnStuckDetected_entries [of "\<lparr>X = 200, Y = 200\<rparr>" "\<lparr>X = 207, Y = 207\<rparr>" ?d1 ?near] old
    by blast
  from a b c show ?thesis by simp
qed

subsection \<open>Composition of the stages\<close>

lemmas stage_defs = pending_interrupt_def area_change_def teleport_precheck_def terminal_check_def
  door_handling_def stationary_check_def cast_gate_def monster_check_def monster_check_due_def
  round_trip_check_def stuck_check_def blocked_recovery_def navigation_skill_def keep_skill_def
  path_step_def lookahead_def commit_def bypass_step_def maxSegmentsToCheck_def to_grid_def to_world_def
  since_def time_sub_def

lemmas const_defs = DistanceToFinishMoving_def stepMonsterCheckInterval_def blockThreshold_def
  stuckThreshold_def roundTripThreshold_def roundTripMaxRadius_def maxObstacleBypassAttempts_def
  Millisecond_def Second_def zero_time_def maxDuration_def minDuration_def zero_position_def int64_def

lemmas sample_defs = sample_dest_def sample_cfg_def sample_snapshot_def sample_locals_def
  init_locals_def empty_opts_def pingAdjustment_def

lemma run_stages_append:
  "run_stages (xs @ ys) l =
     (case run_stages xs l of
        (Some out, l', acts) \<Rightarrow> (Some out, l', acts)
      | (None, l', acts) \<Rightarrow>
          (case run_stages ys l' of (r, l'', acts') \<Rightarrow> (r, l'', acts @ acts')))"
  by (induction xs arbitrary: l) (auto split: prod.splits option.splits)

lemma iteration_from:
  assumes "reaches k snap dest l l1 acts"
  shows "iteration snap dest l =
     (case run_stages (drop k (stages snap dest)) l1 of
        (Some out, l', acts') \<Rightarrow> (out, l', acts @ acts')
      | (None, l', acts') \<Rightarrow> (Continue, l', acts @ acts'))"
proof -
  have "run_stages (stages snap dest) l = run_stages (take k (stages snap dest) @ drop k (stages snap dest)) l"
    by simp
  also have "\<dots> = (case run_stages (drop k (stages snap dest)) l1 of (r, l'', acts') \<Rightarrow> (r, l'', acts @ acts'))"
    using assms unfolding reaches_def by (simp only: run_stages_append) simp
  finally show ?thesis
    by (simp add: iteration_def split: prod.splits option.splits)
qed

lemma reaches_Suc:
  assumes "reaches k snap dest l l1 acts" "k < length (stages snap dest)"
  shows "reaches (Suc k) snap dest l l2 acts2 \<longleftrightarrow>
         (\<exists>a. (stages snap dest ! k) l1 = (None, l2, a) \<and> acts2 = acts @ a)"
proof -
  have "take (Suc k) (stages snap dest) = take k (stages snap dest) @ [stages snap dest ! k]"
    using assms(2) by (simp add: take_Suc_conv_app_nth)
  then show ?thesis
    using assms(1) unfolding reaches_def
    by (auto simp: run_stages_append split: prod.splits option.splits)
qed

text \<open>What the stages after the stuck detection can end a pass with.\<close>

lemma blocked_recovery_out:
  "blocked_recovery snap l = (r, l', acts) \<Longrightarrow> (r = None \<or> r = Some Continue) \<and> l' = l"
  by (auto simp: blocked_recovery_def split: if_splits option.splits prod.splits)

lemma navigation_skill_out:
  "navigation_skill snap l = (r, l', acts) \<Longrightarrow> r = None \<and> l' = l"
  by (auto simp: navigation_skill_def split: if_splits option.splits)

lemma path_step_out:
  "path_step snap dest l = (r, l', acts) \<Longrightarrow>
     r = Some (Return (Some ErrNoPath)) \<or> r = Some (Return None) \<or> r = Some Continue \<or> r = None"
  by (auto simp: path_step_def commit_def Let_def split: if_splits prod.splits lookahead_result.splits)

lemma tail_out:
  assumes "run_stages [blocked_recovery snap, navigation_skill snap, path_step snap dest] l = (r, l', acts)"
  shows "r = Some (Return (Some ErrNoPath)) \<or> r = Some (Return None) \<or> r = Some Continue \<or> r = None"
  using assms
  by (auto split: prod.splits option.splits dest!: blocked_recovery_out navigation_skill_out path_step_out)

text \<open>
  A pass that returns ends the call: when the loop gets as far as pass \<open>n\<close> and
  that pass returns, \<open>MoveTo\<close> returns the same error, and the actions of the pass
  are the last it does.
\<close>

lemma move_loop_from:
  "locals_at world dest l0 n = Some l \<Longrightarrow>
     \<exists>sofar. move_loop world dest 0 l0 [] = move_loop world dest n l sofar"
proof (induction n arbitrary: l)
  case 0
  then show ?case by auto
next
  case (Suc n)
  from Suc.prems obtain lp acts where p: "locals_at world dest l0 n = Some lp"
    and i: "iteration (world n) dest lp = (Continue, l, acts)"
    by (auto split: option.splits prod.splits outcome.splits)
  from Suc.IH [OF p] obtain sofar where
    s: "move_loop world dest 0 l0 [] = move_loop world dest n lp sofar" by blast
  have "move_loop world dest n lp sofar = move_loop world dest (Suc n) l (sofar @ acts)"
    using i by (subst move_loop.simps) simp
  with s show ?case by metis
qed

lemma MoveTo_returns:
  assumes "locals_at world dest (init_locals cfg entry options) n = Some l"
    and "iteration (world n) dest l = (Return r, l', acts)"
  shows "\<exists>sofar. MoveTo cfg entry world dest options = Some (r, sofar @ acts)"
proof -
  from move_loop_from [OF assms(1)] obtain sofar where
    "move_loop world dest 0 (init_locals cfg entry options) [] = move_loop world dest n l sofar"
    by blast
  moreover have "move_loop world dest n l sofar = Some (r, sofar @ acts)"
    using assms(2) by (subst move_loop.simps) simp
  ultimately show ?thesis by (auto simp: MoveTo_def)
qed

subsection \<open>Stuck detection\<close>

text \<open>
  Claim C2, as amended. In a pass that arrives at the stuck detection (stage 9),
  that is, a pass that no earlier block of the loop body has ended: when the
  player's position equals the previously recorded one and the player is not
  stunned, \<open>MoveTo\<close> returns \<open>ErrPlayerStuck\<close> if more than 2 s have passed since
  the stuck timer started, and sets \<open>blocked\<close> if more than 200 ms (and at most
  2 s) have passed; when the position has changed or the player is stunned, the
  stuck timer is set to the current time and the pass does not return
  \<open>ErrPlayerStuck\<close>.
\<close>

theorem stuck_detection:
  assumes "reaches 9 snap dest l l1 acts"
  shows
    "(PlayerPosition snap = previousPosition l1 \<and> \<not> Stunned snap \<longrightarrow>
        (since snap 329 (stuckCheckStartTime l1) > 2 * Second \<longrightarrow>
           iteration snap dest l = (Return (Some ErrPlayerStuck), l1, acts))
      \<and> (since snap 329 (stuckCheckStartTime l1) > 200 * Millisecond
           \<and> since snap 329 (stuckCheckStartTime l1) \<le> 2 * Second \<longrightarrow>
           reaches 10 snap dest l (l1\<lparr>blocked := True\<rparr>) acts))
     \<and> (PlayerPosition snap \<noteq> previousPosition l1 \<or> Stunned snap \<longrightarrow>
          reaches 10 snap dest l (l1\<lparr>stuckCheckStartTime := Clock snap 339\<rparr>) acts
          \<and> fst (iteration snap dest l) \<noteq> Return (Some ErrPlayerStuck))"
proof -
  have nth: "stages snap dest ! 9 = stuck_check snap" and len: "9 < length (stages snap dest)"
    by (simp_all add: stages_def)
  have drop9: "drop 9 (stages snap dest) =
      stuck_check snap # [blocked_recovery snap, navigation_skill snap, path_step snap dest]"
    by (simp add: stages_def)
  note it = iteration_from [OF assms, unfolded drop9]
  note r10 = reaches_Suc [OF assms len, unfolded nth]
  have a: "iteration snap dest l = (Return (Some ErrPlayerStuck), l1, acts)"
    if "PlayerPosition snap = previousPosition l1" "\<not> Stunned snap"
       "since snap 329 (stuckCheckStartTime l1) > 2 * Second"
    using that by (simp add: it stuck_check_def stuckThreshold_def Let_def)
  have b: "reaches 10 snap dest l (l1\<lparr>blocked := True\<rparr>) acts"
    if "PlayerPosition snap = previousPosition l1" "\<not> Stunned snap"
       "since snap 329 (stuckCheckStartTime l1) > 200 * Millisecond"
       "since snap 329 (stuckCheckStartTime l1) \<le> 2 * Second"
    using that r10 [of "l1\<lparr>blocked := True\<rparr>" acts]
    by (simp add: stuck_check_def stuckThreshold_def blockThreshold_def Let_def)
  have c: "reaches 10 snap dest l (l1\<lparr>stuckCheckStartTime := Clock snap 339\<rparr>) acts"
    if "PlayerPosition snap \<noteq> previousPosition l1 \<or> Stunned snap"
    using that r10 [of "l1\<lparr>stuckCheckStartTime := Clock snap 339\<rparr>" acts]
    by (auto simp add: stuck_check_def Let_def)
  have d: "fst (iteration snap dest l) \<noteq> Return (Some ErrPlayerStuck)"
    if h: "PlayerPosition snap \<noteq> previousPosition l1 \<or> Stunned snap"
  proof -
    from h have s: "stuck_check snap l1 = (None, l1\<lparr>stuckCheckStartTime := Clock snap 339\<rparr>, [])"
      by (auto simp: stuck_check_def Let_def)
    obtain r l' a where t: "run_stages [blocked_recovery snap, navigation_skill snap, path_step snap dest]
         (l1\<lparr>stuckCheckStartTime := Clock snap 339\<rparr>) = (r, l', a)"
      by (metis prod_cases3)
    from tail_out [OF t] show ?thesis
      using s t by (auto simp: it)
  qed
  from a b c d show ?thesis by blast
qed


theorem stuck_detection_witness:
  "fst (iteration sample_snapshot sample_dest sample_stuck_locals) = Return (Some ErrPlayerStuck)
   \<and> fst (iteration sample_snapshot sample_dest sample_locals) \<noteq> Return (Some ErrPlayerStuck)"
proof -
  have "\<exists>l1 acts. reaches 9 sample_snapshot sample_dest sample_stuck_locals l1 acts
          \<and> PlayerPosition sample_snapshot = previousPosition l1 \<and> \<not> Stunned sample_snapshot
          \<and> since sample_snapshot 329 (stuckCheckStartTime l1) > 2 * Second"
    by (simp add: reaches_def stages_def stage_defs const_defs sample_defs sample_stuck_locals_def Let_def)
  then obtain l1 acts where r: "reaches 9 sample_snapshot sample_dest sample_stuck_locals l1 acts"
    and h: "PlayerPosition sample_snapshot = previousPosition l1" "\<not> Stunned sample_snapshot"
      "since sample_snapshot 329 (stuckCheckStartTime l1) > 2 * Second"
    by blast
  have a: "fst (iteration sample_snapshot sample_dest sample_stuck_locals) = Return (Some ErrPlayerStuck)"
    using stuck_detection [OF r] h by simp
  have "\<exists>l1 acts. reaches 9 sample_snapshot sample_dest sample_locals l1 acts
          \<and> PlayerPosition sample_snapshot \<noteq> previousPosition l1"
    by (simp add: reaches_def stages_def stage_defs const_defs sample_defs Let_def)
  then obtain l2 acts2 where r2: "reaches 9 sample_snapshot sample_dest sample_locals l2 acts2"
    and h2: "PlayerPosition sample_snapshot \<noteq> previousPosition l2"
    by blast
  have b: "fst (iteration sample_snapshot sample_dest sample_locals) \<noteq> Return (Some ErrPlayerStuck)"
    using stuck_detection [OF r2] h2 by simp
  from a b show ?thesis by simp
qed

text \<open>
  Claim C2 as stated, for every pass of the loop, fails on the sample game. The
  player has not moved, is not stunned and the stuck timer started 3 s ago: two
  units from the destination the pass returns \<open>nil\<close>, and with an enemy in range
  it returns \<open>ErrMonstersInPath\<close>. A teleporting character that has moved, 100 ms
  after its last movement: the pass sleeps out the cast duration and starts the
  next pass, and the stuck timer is not reset.
\<close>

theorem stuck_detection_counterexample:
  "PlayerPosition sample_snapshot = previousPosition sample_stuck_locals
   \<and> \<not> Stunned sample_snapshot
   \<and> since sample_snapshot 329 (stuckCheckStartTime sample_stuck_locals) > 2 * Second
   \<and> fst (iteration sample_snapshot sample_near_dest sample_stuck_locals) = Return None
   \<and> PlayerPosition sample_walk_enemy = previousPosition sample_stuck_locals
   \<and> \<not> Stunned sample_walk_enemy
   \<and> since sample_walk_enemy 329 (stuckCheckStartTime sample_stuck_locals) > 2 * Second
   \<and> fst (iteration sample_walk_enemy sample_dest sample_stuck_locals) = Return (Some ErrMonstersInPath)
   \<and> PlayerPosition sample_teleport \<noteq> previousPosition sample_casting_locals
   \<and> fst (iteration sample_teleport sample_dest sample_casting_locals) = Continue
   \<and> stuckCheckStartTime sample_casting_locals = 0
   \<and> Clock sample_teleport 339 = 3 * Second
   \<and> stuckCheckStartTime (fst (snd (iteration sample_teleport sample_dest sample_casting_locals))) = 0"
  by (simp add: iteration_def stages_def stage_defs const_defs sample_defs
      sample_enemy_def sample_enemies_def sample_walk_enemy_def sample_near_dest_def
      sample_stuck_locals_def sample_teleport_def sample_casting_locals_def Let_def)

subsection \<open>Round trip detection\<close>

text \<open>
  Claim C5, as amended. In a pass that arrives at the round trip detection
  (stage 8), that is, a pass that no earlier block of the loop body has ended:
  when the
  player is within 8 units of the reference position, \<open>MoveTo\<close> returns
  \<open>ErrPlayerRoundTrip\<close> if more than 10 s have passed since the round trip timer
  started, and sets \<open>blocked\<close> if more than 5 s (and at most 10 s) have passed;
  when the player is more than 8 units away, the reference position becomes the
  current position and the timer restarts at the current time.
\<close>

theorem round_trip_detection:
  assumes "reaches 8 snap dest l l1 acts"
  shows
    "(CalculateDistance snap (PlayerPosition snap) (roundTripReferencePosition l1) \<le> 8 \<longrightarrow>
        (since snap 315 (roundTripCheckStartTime l1) > 10 * Second \<longrightarrow>
           iteration snap dest l = (Return (Some ErrPlayerRoundTrip), l1\<lparr>blocked := False\<rparr>, acts))
      \<and> (since snap 315 (roundTripCheckStartTime l1) > 5 * Second
           \<and> since snap 315 (roundTripCheckStartTime l1) \<le> 10 * Second \<longrightarrow>
           reaches 9 snap dest l (l1\<lparr>blocked := True\<rparr>) acts))
     \<and> (CalculateDistance snap (PlayerPosition snap) (roundTripReferencePosition l1) > 8 \<longrightarrow>
          reaches 9 snap dest l
            (l1\<lparr>blocked := False, roundTripReferencePosition := PlayerPosition snap,
                roundTripCheckStartTime := Clock snap 325\<rparr>) acts)"
proof -
  have nth: "stages snap dest ! 8 = round_trip_check snap" and len: "8 < length (stages snap dest)"
    by (simp_all add: stages_def)
  have drop8: "drop 8 (stages snap dest) =
      round_trip_check snap # [stuck_check snap, blocked_recovery snap, navigation_skill snap, path_step snap dest]"
    by (simp add: stages_def)
  note it = iteration_from [OF assms, unfolded drop8]
  note r9 = reaches_Suc [OF assms len, unfolded nth]
  have half: "roundTripThreshold div 2 = 5 * Second"
    by (simp add: roundTripThreshold_def Second_def)
  have a: "iteration snap dest l = (Return (Some ErrPlayerRoundTrip), l1\<lparr>blocked := False\<rparr>, acts)"
    if "CalculateDistance snap (PlayerPosition snap) (roundTripReferencePosition l1) \<le> 8"
       "since snap 315 (roundTripCheckStartTime l1) > 10 * Second"
    using that by (simp add: it round_trip_check_def roundTripThreshold_def roundTripMaxRadius_def Let_def)
  have b: "reaches 9 snap dest l (l1\<lparr>blocked := True\<rparr>) acts"
    if "CalculateDistance snap (PlayerPosition snap) (roundTripReferencePosition l1) \<le> 8"
       "since snap 315 (roundTripCheckStartTime l1) > 5 * Second"
       "since snap 315 (roundTripCheckStartTime l1) \<le> 10 * Second"
    using that r9 [of "l1\<lparr>blocked := True\<rparr>" acts]
    by (simp add: round_trip_check_def half roundTripMaxRadius_def Let_def) (simp add: roundTripThreshold_def)
  have c: "reaches 9 snap dest l
            (l1\<lparr>blocked := False, roundTripReferencePosition := PlayerPosition snap,
                roundTripCheckStartTime := Clock snap 325\<rparr>) acts"
    if "CalculateDistance snap (PlayerPosition snap) (roundTripReferencePosition l1) > 8"
    using that r9 [of "l1\<lparr>blocked := False, roundTripReferencePosition := PlayerPosition snap,
                roundTripCheckStartTime := Clock snap 325\<rparr>" acts]
    by (simp add: round_trip_check_def roundTripMaxRadius_def Let_def)
  from a b c show ?thesis by blast
qed

theorem round_trip_detection_witness:
  "fst (iteration sample_snapshot sample_dest sample_round_trip_locals) = Return (Some ErrPlayerRoundTrip)"
proof -
  have "\<exists>l1 acts. reaches 8 sample_snapshot sample_dest sample_round_trip_locals l1 acts
          \<and> CalculateDistance sample_snapshot (PlayerPosition sample_snapshot) (roundTripReferencePosition l1) \<le> 8
          \<and> since sample_snapshot 315 (roundTripCheckStartTime l1) > 10 * Second"
    by (simp add: reaches_def stages_def stage_defs const_defs sample_defs sample_round_trip_locals_def Let_def)
  then obtain l1 acts where r: "reaches 8 sample_snapshot sample_dest sample_round_trip_locals l1 acts"
    and h: "CalculateDistance sample_snapshot (PlayerPosition sample_snapshot) (roundTripReferencePosition l1) \<le> 8"
      "since sample_snapshot 315 (roundTripCheckStartTime l1) > 10 * Second"
    by blast
  show ?thesis
    using round_trip_detection [OF r] h by simp
qed

text \<open>
  Claim C5 as stated, for every pass of the loop, fails on the sample game. The
  player is at the reference position and the round trip timer started 11 s ago:
  two units from the destination the pass returns \<open>nil\<close>, and with an enemy in
  range it returns \<open>ErrMonstersInPath\<close>. A teleporting character far from the
  reference position, 100 ms after its last movement: the pass sleeps out the
  cast duration and starts the next pass, and neither the reference position nor
  the timer is reset.
\<close>

theorem round_trip_detection_counterexample:
  "CalculateDistance sample_snapshot (PlayerPosition sample_snapshot)
       (roundTripReferencePosition sample_round_trip_locals) \<le> 8
   \<and> since sample_snapshot 315 (roundTripCheckStartTime sample_round_trip_locals) > 10 * Second
   \<and> fst (iteration sample_snapshot sample_near_dest sample_round_trip_locals) = Return None
   \<and> CalculateDistance sample_walk_enemy (PlayerPosition sample_walk_enemy)
       (roundTripReferencePosition sample_round_trip_locals) \<le> 8
   \<and> since sample_walk_enemy 315 (roundTripCheckStartTime sample_round_trip_locals) > 10 * Second
   \<and> fst (iteration sample_walk_enemy sample_dest sample_round_trip_locals) = Return (Some ErrMonstersInPath)
   \<and> CalculateDistance sample_teleport (PlayerPosition sample_teleport)
       (roundTripReferencePosition sample_casting_far_locals) > 8
   \<and> fst (iteration sample_teleport sample_dest sample_casting_far_locals) = Continue
   \<and> roundTripReferencePosition (fst (snd (iteration sample_teleport sample_dest sample_casting_far_locals)))
       = \<lparr>X = 100, Y = 100\<rparr>
   \<and> PlayerPosition sample_teleport = \<lparr>X = 10, Y = 10\<rparr>
   \<and> roundTripCheckStartTime (fst (snd (iteration sample_teleport sample_dest sample_casting_far_locals))) = 0
   \<and> Clock sample_teleport 325 = 3 * Second"
  by (simp add: iteration_def stages_def stage_defs const_defs sample_defs
      sample_enemy_def sample_enemies_def sample_walk_enemy_def sample_near_dest_def
      sample_round_trip_locals_def sample_teleport_def sample_casting_far_locals_def Let_def)

subsection \<open>Path computation\<close>

lemma stage_silent:
  "pending_interrupt snap l = (None, l', a) \<Longrightarrow> \<not> issues_movement a"
  "area_change snap l = (None, l', a) \<Longrightarrow> \<not> issues_movement a"
  "teleport_precheck snap dest l = (None, l', a) \<Longrightarrow> \<not> issues_movement a"
  "terminal_check snap dest l = (None, l', a) \<Longrightarrow> \<not> issues_movement a"
  "stationary_check snap dest l = (None, l', a) \<Longrightarrow> \<not> issues_movement a"
  "cast_gate snap l = (None, l', a) \<Longrightarrow> \<not> issues_movement a"
  "monster_check snap l = (None, l', a) \<Longrightarrow> \<not> issues_movement a"
  "round_trip_check snap l = (None, l', a) \<Longrightarrow> \<not> issues_movement a"
  "stuck_check snap l = (None, l', a) \<Longrightarrow> \<not> issues_movement a"
  "blocked_recovery snap l = (None, l', a) \<Longrightarrow> \<not> issues_movement a"
  "navigation_skill snap l = (None, l', a) \<Longrightarrow> \<not> issues_movement a"
  by (auto simp: issues_movement_def stage_defs Let_def
      split: if_splits option.splits prod.splits)

lemma door_retry_silent: "door_retry snap door n k e = (r, a) \<Longrightarrow> \<not> issues_movement a"
  by (induction n arbitrary: k e r a)
     (auto simp: issues_movement_def split: option.splits prod.splits)

lemma door_handling_silent: "door_handling snap dest l = (r, l', a) \<Longrightarrow> \<not> issues_movement a"
  by (auto simp: door_handling_def issues_movement_def[of "[]"]
      split: if_splits option.splits prod.splits dest: door_retry_silent)

lemma issues_movement_append: "issues_movement (a @ b) \<longleftrightarrow> issues_movement a \<or> issues_movement b"
  by (simp add: issues_movement_def list_ex_iff) blast

lemma reaches_0: "reaches 0 snap dest l l1 acts \<longleftrightarrow> l1 = l \<and> acts = []"
  by (auto simp: reaches_def)

lemma before_path_silent:
  assumes "reaches 12 snap dest l l1 acts"
  shows "\<not> issues_movement acts"
  using assms unfolding reaches_def stages_def
  by (auto simp: issues_movement_append split: prod.splits option.splits
      dest!: stage_silent door_handling_silent)


lemma stage_no_jitter:
  "pending_interrupt snap l = (None, l', a) \<Longrightarrow> RandomMovement \<notin> set a"
  "area_change snap l = (None, l', a) \<Longrightarrow> RandomMovement \<notin> set a"
  "teleport_precheck snap dest l = (None, l', a) \<Longrightarrow> RandomMovement \<notin> set a"
  "terminal_check snap dest l = (None, l', a) \<Longrightarrow> RandomMovement \<notin> set a"
  "stationary_check snap dest l = (None, l', a) \<Longrightarrow> RandomMovement \<notin> set a"
  "cast_gate snap l = (None, l', a) \<Longrightarrow> RandomMovement \<notin> set a"
  "monster_check snap l = (None, l', a) \<Longrightarrow> RandomMovement \<notin> set a"
  "round_trip_check snap l = (None, l', a) \<Longrightarrow> RandomMovement \<notin> set a"
  "stuck_check snap l = (None, l', a) \<Longrightarrow> RandomMovement \<notin> set a"
  "blocked_recovery snap l = (None, l', a) \<Longrightarrow> RandomMovement \<notin> set a"
  "navigation_skill snap l = (None, l', a) \<Longrightarrow> RandomMovement \<notin> set a"
  by (auto simp: stage_defs Let_def split: if_splits option.splits prod.splits)

lemma door_retry_jitter:
  "door_retry snap door n k e = (r, a) \<Longrightarrow> RandomMovement \<in> set a \<Longrightarrow> InteractResult snap k \<noteq> None"
  by (cases n) (auto split: option.splits prod.splits)

lemma door_handling_jitter:
  "door_handling snap dest l = (r, l', a) \<Longrightarrow> RandomMovement \<in> set a \<Longrightarrow>
     \<not> CanTeleport snap \<and> HasDoorBetween snap (PlayerPosition snap) dest \<noteq> None
     \<and> InteractResult snap 0 \<noteq> None"
  by (auto simp: door_handling_def split: if_splits option.splits prod.splits dest: door_retry_jitter)

lemma before_path_jitter:
  assumes "reaches 12 snap dest l l1 acts" "RandomMovement \<in> set acts"
  shows "\<not> CanTeleport snap \<and> HasDoorBetween snap (PlayerPosition snap) dest \<noteq> None
     \<and> InteractResult snap 0 \<noteq> None"
proof -
  from assms have "\<exists>l4 l5 a5. door_handling snap dest l4 = (None, l5, a5) \<and> RandomMovement \<in> set a5"
    unfolding reaches_def stages_def
    by (auto split: prod.splits option.splits dest!: stage_no_jitter; blast)
  then show ?thesis
    using door_handling_jitter by blast
qed

text \<open>
  Claim C6. In a pass that arrives at the path computation (stage 12): when the
  planner reports that no path was found, \<open>MoveTo\<close> returns \<open>ErrNoPath\<close>; when it
  reports a path and the path is empty, \<open>MoveTo\<close> returns \<open>nil\<close>; in both cases
  nothing is done after the planner's answer, and no movement command
  (\<open>MoveThroughPath\<close>) was issued earlier in the pass. The only other movement a
  pass can have made before the path computation is the random movement of the
  door retry loop, after a failed interaction with a door.
\<close>

theorem path_computation:
  assumes "reaches 12 snap dest l l1 acts"
  shows
    "(\<not> snd (GetPath snap dest) \<longrightarrow> iteration snap dest l = (Return (Some ErrNoPath), l1, acts))
     \<and> (snd (GetPath snap dest) \<and> fst (GetPath snap dest) = [] \<longrightarrow>
          iteration snap dest l = (Return None, l1, acts))
     \<and> \<not> issues_movement acts
     \<and> (RandomMovement \<in> set acts \<longrightarrow>
          \<not> CanTeleport snap \<and> HasDoorBetween snap (PlayerPosition snap) dest \<noteq> None
          \<and> InteractResult snap 0 \<noteq> None)"
proof -
  have drop12: "drop 12 (stages snap dest) = [path_step snap dest]"
    by (simp add: stages_def)
  note it = iteration_from [OF assms, unfolded drop12]
  obtain path found where gp: "GetPath snap dest = (path, found)"
    by (cases "GetPath snap dest")
  have a: "iteration snap dest l = (Return (Some ErrNoPath), l1, acts)" if "\<not> snd (GetPath snap dest)"
    using that gp by (simp add: it path_step_def)
  have b: "iteration snap dest l = (Return None, l1, acts)"
    if "snd (GetPath snap dest)" "fst (GetPath snap dest) = []"
    using that gp by (simp add: it path_step_def)
  from a b before_path_silent [OF assms] before_path_jitter [OF assms] show ?thesis by blast
qed

theorem path_computation_witness:
  "fst (iteration sample_no_path sample_dest sample_locals) = Return (Some ErrNoPath)
   \<and> \<not> issues_movement (snd (snd (iteration sample_no_path sample_dest sample_locals)))
   \<and> fst (iteration sample_empty_path sample_dest sample_locals) = Return None
   \<and> \<not> issues_movement (snd (snd (iteration sample_empty_path sample_dest sample_locals)))"
proof -
  have "\<exists>l1 acts. reaches 12 sample_no_path sample_dest sample_locals l1 acts
          \<and> \<not> snd (GetPath sample_no_path sample_dest)"
    by (simp add: reaches_def stages_def stage_defs const_defs sample_defs sample_no_path_def Let_def)
  then obtain l1 acts where r: "reaches 12 sample_no_path sample_dest sample_locals l1 acts"
    and h: "\<not> snd (GetPath sample_no_path sample_dest)"
    by blast
  have a: "fst (iteration sample_no_path sample_dest sample_locals) = Return (Some ErrNoPath)
     \<and> \<not> issues_movement (snd (snd (iteration sample_no_path sample_dest sample_locals)))"
    using path_computation [OF r] h by simp
  have "\<exists>l1 acts. reaches 12 sample_empty_path sample_dest sample_locals l1 acts
          \<and> snd (GetPath sample_empty_path sample_dest) \<and> fst (GetPath sample_empty_path sample_dest) = []"
    by (simp add: reaches_def stages_def stage_defs const_defs sample_defs sample_empty_path_def Let_def)
  then obtain l2 acts2 where r2: "reaches 12 sample_empty_path sample_dest sample_locals l2 acts2"
    and h2: "snd (GetPath sample_empty_path sample_dest)" "fst (GetPath sample_empty_path sample_dest) = []"
    by blast
  have b: "fst (iteration sample_empty_path sample_dest sample_locals) = Return None
     \<and> \<not> issues_movement (snd (snd (iteration sample_empty_path sample_dest sample_locals)))"
    using path_computation [OF r2] h2 by simp
  from a b show ?thesis by simp
qed

subsection \<open>The look-ahead when teleporting\<close>









subsection \<open>The monster check\<close>

lemma monster_scan_iff:
  "monster_scan snap cpd ms \<longleftrightarrow>
     (\<exists>m \<in> set ms. \<not> ShouldIgnoreMonster snap m
        \<and> DistanceFromMe snap (MonPosition m) \<le> cpd
        \<and> LineOfSight snap (PlayerPosition snap) (MonPosition m)
        \<and> HasDoorBetween snap (PlayerPosition snap) (MonPosition m) = None)"
  by (induction ms) auto

lemma round_trip_check_out:
  "round_trip_check snap l = (r, l', acts) \<Longrightarrow> r = None \<or> r = Some (Return (Some ErrPlayerRoundTrip))"
  by (auto simp: round_trip_check_def Let_def split: if_splits)

lemma stuck_check_out:
  "stuck_check snap l = (r, l', acts) \<Longrightarrow> r = None \<or> r = Some (Return (Some ErrPlayerStuck))"
  by (auto simp: stuck_check_def Let_def split: if_splits)

lemma after_monsters_out:
  assumes "run_stages [round_trip_check snap, stuck_check snap, blocked_recovery snap,
             navigation_skill snap, path_step snap dest] l = (r, l', acts)"
  shows "r \<noteq> Some (Return (Some ErrMonstersInPath))"
proof -
  have "r = None \<or> r = Some (Return (Some ErrPlayerRoundTrip)) \<or> r = Some (Return (Some ErrPlayerStuck))
        \<or> r = Some (Return (Some ErrNoPath)) \<or> r = Some (Return None) \<or> r = Some Continue"
    using assms
    by (auto split: prod.splits option.splits
        dest!: round_trip_check_out stuck_check_out blocked_recovery_out navigation_skill_out path_step_out)
  then show ?thesis by auto
qed

text \<open>
  Claim C1, as amended. In a pass that arrives at the monster check (stage 7),
  \<open>MoveTo\<close> returns \<open>ErrMonstersInPath\<close> exactly when the check is due and finds an
  enemy. The check is due when monsters are not ignored, the area is not a town,
  the character cannot teleport or the clear path distance was overridden, the
  clear path distance is above 0, and more than 100 ms have passed since the last
  check. It finds an enemy when some enemy that passes the caller's filters and is
  not ignored by the character is no further away than the clear path distance,
  is in line of sight and has no door between it and the player. The return is
  immediate: the pass does nothing more, and only the time of the last check is
  updated.
\<close>

theorem monster_interrupt:
  assumes "reaches 7 snap dest l l1 acts"
  shows
    "(fst (iteration snap dest l) = Return (Some ErrMonstersInPath) \<longleftrightarrow>
        \<not> ignoreMonsters (opts l1) \<and> \<not> IsTown snap
        \<and> (\<not> CanTeleport snap \<or> overrideClearPathDist l1)
        \<and> clearPathDist l1 > 0
        \<and> since snap 284 (stepLastMonsterCheck l1) > 100 * Millisecond
        \<and> (\<exists>m \<in> set (Enemies snap (monsterFilters (opts l1))).
              \<not> ShouldIgnoreMonster snap m
              \<and> DistanceFromMe snap (MonPosition m) \<le> clearPathDist l1
              \<and> LineOfSight snap (PlayerPosition snap) (MonPosition m)
              \<and> HasDoorBetween snap (PlayerPosition snap) (MonPosition m) = None))
     \<and> (fst (iteration snap dest l) = Return (Some ErrMonstersInPath) \<longrightarrow>
          iteration snap dest l
            = (Return (Some ErrMonstersInPath), l1\<lparr>stepLastMonsterCheck := Clock snap 285\<rparr>, acts))"
proof -
  let ?found = "\<exists>m \<in> set (Enemies snap (monsterFilters (opts l1))).
              \<not> ShouldIgnoreMonster snap m
              \<and> DistanceFromMe snap (MonPosition m) \<le> clearPathDist l1
              \<and> LineOfSight snap (PlayerPosition snap) (MonPosition m)
              \<and> HasDoorBetween snap (PlayerPosition snap) (MonPosition m) = None"
  let ?due = "\<not> ignoreMonsters (opts l1) \<and> \<not> IsTown snap
        \<and> (\<not> CanTeleport snap \<or> overrideClearPathDist l1)
        \<and> clearPathDist l1 > 0
        \<and> since snap 284 (stepLastMonsterCheck l1) > 100 * Millisecond"
  have due: "monster_check_due snap l1 \<longleftrightarrow> ?due"
    by (simp add: monster_check_due_def stepMonsterCheckInterval_def)
  have drop7: "drop 7 (stages snap dest) =
      monster_check snap # [round_trip_check snap, stuck_check snap, blocked_recovery snap,
             navigation_skill snap, path_step snap dest]"
    by (simp add: stages_def)
  note it = iteration_from [OF assms, unfolded drop7]
  have hit: "iteration snap dest l
            = (Return (Some ErrMonstersInPath), l1\<lparr>stepLastMonsterCheck := Clock snap 285\<rparr>, acts)"
    if "?due" "?found"
  proof -
    have ms: "monster_scan snap (clearPathDist l1) (Enemies snap (monsterFilters (opts l1))) \<longleftrightarrow> ?found"
      by (rule monster_scan_iff)
    from that due have d: "monster_check_due snap l1" by blast
    from that ms have "monster_scan snap (clearPathDist l1) (Enemies snap (monsterFilters (opts l1)))"
      by blast
    with d have "monster_check snap l1
        = (Some (Return (Some ErrMonstersInPath)), l1\<lparr>stepLastMonsterCheck := Clock snap 285\<rparr>, [])"
      by (simp add: monster_check_def Let_def)
    then show ?thesis by (simp add: it)
  qed
  have miss: "fst (iteration snap dest l) \<noteq> Return (Some ErrMonstersInPath)"
    if "\<not> (?due \<and> ?found)"
  proof -
    have ms: "monster_scan snap (clearPathDist l1) (Enemies snap (monsterFilters (opts l1))) \<longleftrightarrow> ?found"
      by (rule monster_scan_iff)
    have "\<exists>l2. monster_check snap l1 = (None, l2, [])"
    proof (cases "monster_check_due snap l1")
      case True
      with that due have "\<not> ?found" by blast
      with True ms show ?thesis by (simp add: monster_check_def Let_def)
    next
      case False
      then show ?thesis by (simp add: monster_check_def)
    qed
    then obtain l2 where m: "monster_check snap l1 = (None, l2, [])" by blast
    obtain r l' a where t: "run_stages [round_trip_check snap, stuck_check snap, blocked_recovery snap,
             navigation_skill snap, path_step snap dest] l2 = (r, l', a)"
      by (metis prod_cases3)
    from m t have "run_stages (monster_check snap # [round_trip_check snap, stuck_check snap,
             blocked_recovery snap, navigation_skill snap, path_step snap dest]) l1 = (r, l', a)"
      by (simp del: run_stages.simps add: run_stages.simps(2) [of "monster_check snap"])
    with after_monsters_out [OF t] show ?thesis
      by (cases r) (simp_all add: it del: run_stages.simps)
  qed
  from hit miss show ?thesis
    by (metis fst_conv)
qed

theorem monster_interrupt_witness:
  "fst (iteration sample_walk_enemy sample_dest sample_locals) = Return (Some ErrMonstersInPath)"
proof -
  have r: "reaches 7 sample_walk_enemy sample_dest sample_locals sample_locals [PauseIfNotPriority, RefreshGameData]"
    by (simp add: reaches_def stages_def stage_defs const_defs sample_defs sample_enemy_def sample_enemies_def sample_walk_enemy_def Let_def)
  have "sample_enemy \<in> set (Enemies sample_walk_enemy (monsterFilters (opts sample_locals)))"
    by (simp add: sample_defs sample_enemy_def sample_enemies_def sample_walk_enemy_def)
  moreover have "\<not> ShouldIgnoreMonster sample_walk_enemy sample_enemy
      \<and> DistanceFromMe sample_walk_enemy (MonPosition sample_enemy) \<le> clearPathDist sample_locals
      \<and> LineOfSight sample_walk_enemy (PlayerPosition sample_walk_enemy) (MonPosition sample_enemy)
      \<and> HasDoorBetween sample_walk_enemy (PlayerPosition sample_walk_enemy) (MonPosition sample_enemy) = None"
    by (simp add: sample_defs sample_enemy_def sample_enemies_def sample_walk_enemy_def)
  moreover have "\<not> ignoreMonsters (opts sample_locals) \<and> \<not> IsTown sample_walk_enemy
        \<and> (\<not> CanTeleport sample_walk_enemy \<or> overrideClearPathDist sample_locals)
        \<and> clearPathDist sample_locals > 0
        \<and> since sample_walk_enemy 284 (stepLastMonsterCheck sample_locals) > 100 * Millisecond"
    by (simp add: sample_defs sample_enemy_def sample_enemies_def sample_walk_enemy_def since_def time_sub_def const_defs)
  ultimately show ?thesis
    using monster_interrupt [OF r] by blast
qed

text \<open>
  Claim C1 as stated fails twice on the sample game. A teleporting character
  without a clear path override arrives at the check in a dungeon, with clear
  path distance 5, monsters not ignored, no check made before, and an enemy two
  units away in line of sight with no door: the check does not run and the pass
  goes on to move. A walking character in the same place whose last check was
  exactly 100 ms ago: the check does not run either.
\<close>

theorem monster_interrupt_counterexample:
  "reaches 7 sample_teleport_enemy sample_dest sample_locals sample_locals [PauseIfNotPriority, RefreshGameData]
   \<and> \<not> IsTown sample_teleport_enemy
   \<and> clearPathDist sample_locals > 0
   \<and> \<not> ignoreMonsters (opts sample_locals)
   \<and> since sample_teleport_enemy 284 (stepLastMonsterCheck sample_locals) \<ge> 100 * Millisecond
   \<and> sample_enemy \<in> set (Enemies sample_teleport_enemy (monsterFilters (opts sample_locals)))
   \<and> \<not> ShouldIgnoreMonster sample_teleport_enemy sample_enemy
   \<and> DistanceFromMe sample_teleport_enemy (MonPosition sample_enemy) \<le> clearPathDist sample_locals
   \<and> LineOfSight sample_teleport_enemy (PlayerPosition sample_teleport_enemy) (MonPosition sample_enemy)
   \<and> HasDoorBetween sample_teleport_enemy (PlayerPosition sample_teleport_enemy) (MonPosition sample_enemy) = None
   \<and> fst (iteration sample_teleport_enemy sample_dest sample_locals) = Continue
   \<and> reaches 7 sample_walk_enemy sample_dest sample_recent_check_locals sample_recent_check_locals
        [PauseIfNotPriority, RefreshGameData]
   \<and> \<not> IsTown sample_walk_enemy
   \<and> clearPathDist sample_recent_check_locals > 0
   \<and> \<not> ignoreMonsters (opts sample_recent_check_locals)
   \<and> since sample_walk_enemy 284 (stepLastMonsterCheck sample_recent_check_locals) \<ge> 100 * Millisecond
   \<and> sample_enemy \<in> set (Enemies sample_walk_enemy (monsterFilters (opts sample_recent_check_locals)))
   \<and> \<not> ShouldIgnoreMonster sample_walk_enemy sample_enemy
   \<and> DistanceFromMe sample_walk_enemy (MonPosition sample_enemy) \<le> clearPathDist sample_recent_check_locals
   \<and> LineOfSight sample_walk_enemy (PlayerPosition sample_walk_enemy) (MonPosition sample_enemy)
   \<and> HasDoorBetween sample_walk_enemy (PlayerPosition sample_walk_enemy) (MonPosition sample_enemy) = None
   \<and> fst (iteration sample_walk_enemy sample_dest sample_recent_check_locals) = Continue"
  by (simp add: reaches_def iteration_def stages_def stage_defs const_defs sample_defs sample_enemy_def sample_enemies_def
      sample_teleport_enemy_def sample_walk_enemy_def sample_recent_check_locals_def Let_def)

subsection \<open>What the loop leaves unchanged\<close>

lemma run_stages_preserves:
  assumes "\<And>s l r l' a. s \<in> set ss \<Longrightarrow> P l \<Longrightarrow> s l = (r, l', a) \<Longrightarrow> P l'"
    and "P l" and "run_stages ss l = (r, l', a)"
  shows "P l'"
  using assms
proof (induction ss arbitrary: l r l' a)
  case Nil
  then show ?case by simp
next
  case (Cons s ss)
  note step = Cons.prems(1) and pl = Cons.prems(2) and run = Cons.prems(3)
  obtain r1 l1 a1 where s: "s l = (r1, l1, a1)" by (metis prod_cases3)
  have p1: "P l1" using step [of s l r1 l1 a1] pl s by simp
  show ?case
  proof (cases r1)
    case None
    obtain r2 l2 a2 where t: "run_stages ss l1 = (r2, l2, a2)" by (metis prod_cases3)
    have "P l2"
    proof (rule Cons.IH [OF _ p1 t])
      fix sa x ra x' aa
      assume "sa \<in> set ss" "P x" "sa x = (ra, x', aa)"
      then show "P x'" using step [of sa x ra x' aa] by simp
    qed
    moreover have "l' = l2" using run s None t by simp
    ultimately show ?thesis by simp
  next
    case (Some out)
    then have "l' = l1" using run s by simp
    with p1 show ?thesis by simp
  qed
qed

text \<open>The variables that are set up before the loop and only read in it.\<close>

lemma door_handling_locals: "door_handling snap dest l = (r, l', a) \<Longrightarrow> l' = l"
  by (auto simp: door_handling_def split: if_splits option.splits prod.splits)

lemma stage_keeps_setup:
  assumes "s \<in> set (stages snap dest)" "s l = (r, l', a)"
  shows "opts l' = opts l \<and> minDistanceToFinishMoving l' = minDistanceToFinishMoving l
         \<and> clearPathDist l' = clearPathDist l \<and> overrideClearPathDist l' = overrideClearPathDist l
         \<and> startArea l' = startArea l \<and> walkDuration l' = walkDuration l \<and> isDragondin l' = isDragondin l"
proof -
  from assms(1) consider
      "s = pending_interrupt snap" | "s = area_change snap" | "s = teleport_precheck snap dest"
    | "s = terminal_check snap dest" | "s = door_handling snap dest" | "s = stationary_check snap dest"
    | "s = cast_gate snap" | "s = monster_check snap" | "s = round_trip_check snap"
    | "s = stuck_check snap" | "s = blocked_recovery snap" | "s = navigation_skill snap"
    | "s = path_step snap dest"
    by (auto simp: stages_def)
  then show ?thesis
  proof cases
    case 5
    with assms(2) show ?thesis by (auto dest: door_handling_locals)
  next
    case 13
    with assms(2) show ?thesis
      by (auto simp: path_step_def commit_def bypass_step_def Let_def
          split: if_splits prod.splits lookahead_result.splits)
  qed (use assms(2) in \<open>auto simp: stage_defs Let_def split: if_splits option.splits prod.splits\<close>)
qed

lemma reaches_keeps_opts:
  assumes "reaches k snap dest l l1 acts"
  shows "opts l1 = opts l \<and> minDistanceToFinishMoving l1 = minDistanceToFinishMoving l"
proof -
  let ?P = "\<lambda>x. opts x = opts l \<and> minDistanceToFinishMoving x = minDistanceToFinishMoving l"
  have "?P l1"
  proof (rule run_stages_preserves [where P = ?P and ss = "take k (stages snap dest)" and l = l])
    fix s x r x' a
    assume "s \<in> set (take k (stages snap dest))" "?P x" "s x = (r, x', a)"
    then show "?P x'"
      using stage_keeps_setup [of s snap dest x r x' a] by (auto dest: in_set_takeD)
  next
    show "?P l" by simp
  next
    show "run_stages (take k (stages snap dest)) l = (None, l1, acts)"
      using assms by (simp add: reaches_def)
  qed
  then show ?thesis .
qed

lemma iteration_keeps_opts:
  assumes "iteration snap dest l = (out, l', acts)"
  shows "opts l' = opts l \<and> minDistanceToFinishMoving l' = minDistanceToFinishMoving l"
proof -
  let ?P = "\<lambda>x. opts x = opts l \<and> minDistanceToFinishMoving x = minDistanceToFinishMoving l"
  obtain r where rs: "run_stages (stages snap dest) l = (r, l', acts)"
    using assms by (auto simp: iteration_def split: prod.splits option.splits)
  have "?P l'"
  proof (rule run_stages_preserves [where P = ?P and ss = "stages snap dest" and l = l])
    fix s x r x' a
    assume "s \<in> set (stages snap dest)" "?P x" "s x = (r, x', a)"
    then show "?P x'"
      using stage_keeps_setup [of s snap dest x r x' a] by auto
  next
    show "?P l" by simp
  next
    show "run_stages (stages snap dest) l = (r, l', acts)" by (rule rs)
  qed
  then show ?thesis .
qed

lemma locals_at_keeps_opts:
  "locals_at world dest l0 n = Some l \<Longrightarrow>
     opts l = opts l0 \<and> minDistanceToFinishMoving l = minDistanceToFinishMoving l0"
proof (induction n arbitrary: l)
  case 0
  then show ?case by simp
next
  case (Suc n)
  from Suc.prems obtain lp acts where p: "locals_at world dest l0 n = Some lp"
    and i: "iteration (world n) dest lp = (Continue, l, acts)"
    by (auto split: option.splits prod.splits outcome.splits)
  from Suc.IH [OF p] iteration_keeps_opts [OF i] show ?case by simp
qed

lemma init_opts:
  "opts (init_locals cfg entry options)
     = (apply_options options empty_opts)\<lparr>ignoreShrines := \<not> InteractWithShrines cfg\<rparr>"
  by (simp add: init_locals_def Let_def)

text \<open>
  Claim C4, as amended. After the options have been applied in order, \<open>MoveTo\<close>
  changes the \<open>MoveOpts\<close> value once, before the loop: \<open>ignoreShrines\<close> is
  assigned from the character configuration (the negation of
  \<open>InteractWithShrines\<close>). Every other field keeps the value the options gave it,
  and the value is not changed while the loop runs: it is the same at the start
  of every pass, at every stage of a pass and at its end.
\<close>

theorem opts_after_setup:
  "opts (init_locals cfg entry options)
     = (apply_options options empty_opts)\<lparr>ignoreShrines := \<not> InteractWithShrines cfg\<rparr>
   \<and> (locals_at world dest (init_locals cfg entry options) n = Some l \<longrightarrow>
        opts l = opts (init_locals cfg entry options)
        \<and> (\<forall>k l1 acts. reaches k (world n) dest l l1 acts \<longrightarrow> opts l1 = opts l)
        \<and> opts (fst (snd (iteration (world n) dest l))) = opts l)"
proof -
  have "opts (fst (snd (iteration (world n) dest l))) = opts l"
    using iteration_keeps_opts [of "world n" dest l] by (metis prod.collapse)
  then show ?thesis
    using init_opts locals_at_keeps_opts reaches_keeps_opts by blast
qed

theorem opts_after_setup_witness:
  "ignoreMonsters (opts (fst (snd (iteration sample_snapshot sample_dest
       (init_locals sample_cfg sample_snapshot [WithIgnoreMonsters, IgnoreShrines])))))
   \<and> \<not> ignoreShrines (opts (fst (snd (iteration sample_snapshot sample_dest
       (init_locals sample_cfg sample_snapshot [WithIgnoreMonsters, IgnoreShrines])))))"
proof -
  let ?l = "init_locals sample_cfg sample_snapshot [WithIgnoreMonsters, IgnoreShrines]"
  have a: "locals_at (\<lambda>n. sample_snapshot) sample_dest ?l 0 = Some ?l" by simp
  have "opts (fst (snd (iteration sample_snapshot sample_dest ?l))) = opts ?l"
    using opts_after_setup [of sample_cfg sample_snapshot "[WithIgnoreMonsters, IgnoreShrines]"
        "\<lambda>n. sample_snapshot" sample_dest 0 ?l] a by simp
  moreover have "opts ?l = (apply_options [WithIgnoreMonsters, IgnoreShrines] empty_opts)
       \<lparr>ignoreShrines := \<not> InteractWithShrines sample_cfg\<rparr>"
    using opts_after_setup [of sample_cfg sample_snapshot "[WithIgnoreMonsters, IgnoreShrines]"
        "\<lambda>n. sample_snapshot" sample_dest 0 ?l] by simp
  ultimately show ?thesis
    by (simp add: empty_opts_def sample_cfg_def)
qed

text \<open>
  Claim C4 as stated fails for the call with the single option \<open>IgnoreShrines()\<close>
  and a configuration that interacts with shrines: the option sets the flag, and
  at the start of the first pass of the loop the flag is cleared.
\<close>

theorem opts_after_setup_counterexample:
  "ignoreShrines (apply_options [IgnoreShrines] empty_opts)
   \<and> \<not> ignoreShrines (opts (init_locals sample_cfg sample_snapshot [IgnoreShrines]))
   \<and> locals_at (\<lambda>n. sample_snapshot) sample_dest (init_locals sample_cfg sample_snapshot [IgnoreShrines]) 0
       = Some (init_locals sample_cfg sample_snapshot [IgnoreShrines])
   \<and> opts (init_locals sample_cfg sample_snapshot [IgnoreShrines]) \<noteq> apply_options [IgnoreShrines] empty_opts"
proof -
  have a: "ignoreShrines (apply_options [IgnoreShrines] empty_opts)"
    by (simp add: empty_opts_def)
  have b: "\<not> ignoreShrines (opts (init_locals sample_cfg sample_snapshot [IgnoreShrines]))"
    by (simp add: init_locals_def sample_cfg_def Let_def)
  from a b have "opts (init_locals sample_cfg sample_snapshot [IgnoreShrines]) \<noteq> apply_options [IgnoreShrines] empty_opts"
    by metis
  with a b show ?thesis by simp
qed

subsection \<open>Reaching the destination\<close>

lemma int64_id: "- (2 ^ 63) \<le> n \<Longrightarrow> n < 2 ^ 63 \<Longrightarrow> int64 n = n"
  by (simp add: int64_def)

lemma init_minDistance:
  "minDistanceToFinishMoving (init_locals cfg entry options)
     = (case distanceOverride (apply_options options empty_opts) of
          None \<Rightarrow> DistanceToFinishMoving | Some d \<Rightarrow> d)"
  by (simp add: init_locals_def Let_def)

text \<open>
  Claim C3, as amended. In a pass with no pending drop request and no change of
  area, in which the obstacle check for teleporting does not fire (it fires when
  the character can teleport, is within the finish distance, has made fewer than
  3 bypass attempts and an obstacle lies between it and the destination),
  \<open>MoveTo\<close> returns \<open>nil\<close>, having done nothing but the pause and the refresh,
  when the distance to the destination is at most the finish distance, and, when
  \<open>blocked\<close> is set, also when it is at most twice the finish distance (for a
  finish distance whose double fits into 64 bits). In every pass the finish
  distance is the constant 4, or the value of the last \<open>WithDistanceToFinish\<close>
  option when one was given. When the pass is a pass of a call, the call returns
  \<open>nil\<close> with the pause and the refresh as its last actions.
\<close>

theorem destination_reached:
  assumes "PendingDrop snap = None" and "PlayerArea snap = startArea l"
    and "\<not> (CanTeleport snap \<and> DistanceFromMe snap dest \<le> minDistanceToFinishMoving l
            \<and> obstacleBypassAttempts l < 3 \<and> IsObstacleBetween snap (PlayerPosition snap) dest)"
  shows
    "(DistanceFromMe snap dest \<le> minDistanceToFinishMoving l \<longrightarrow>
        iteration snap dest l = (Return None, l, [PauseIfNotPriority, RefreshGameData]))
     \<and> (blocked l \<and> - (2 ^ 62) \<le> minDistanceToFinishMoving l \<and> minDistanceToFinishMoving l < 2 ^ 62
          \<and> DistanceFromMe snap dest \<le> 2 * minDistanceToFinishMoving l \<longrightarrow>
        iteration snap dest l = (Return None, l, [PauseIfNotPriority, RefreshGameData]))
     \<and> (locals_at world dest (init_locals cfg entry options) n = Some l \<longrightarrow>
          minDistanceToFinishMoving l
            = (case distanceOverride (apply_options options empty_opts) of None \<Rightarrow> 4 | Some d \<Rightarrow> d))
     \<and> (locals_at world dest (init_locals cfg entry options) n = Some l \<and> snap = world n
          \<and> (DistanceFromMe snap dest \<le> minDistanceToFinishMoving l
               \<or> blocked l \<and> - (2 ^ 62) \<le> minDistanceToFinishMoving l
                  \<and> minDistanceToFinishMoving l < 2 ^ 62
                  \<and> DistanceFromMe snap dest \<le> 2 * minDistanceToFinishMoving l) \<longrightarrow>
          (\<exists>sofar. MoveTo cfg entry world dest options
                     = Some (None, sofar @ [PauseIfNotPriority, RefreshGameData])))"
proof -
  have s0: "pending_interrupt snap l = (None, l, [PauseIfNotPriority, RefreshGameData])"
    using assms(1) by (simp add: pending_interrupt_def)
  have s1: "area_change snap l = (None, l, [])"
    using assms(2) by (simp add: area_change_def)
  have s2: "teleport_precheck snap dest l = (None, l, [])"
    using assms(3) by (auto simp: teleport_precheck_def maxObstacleBypassAttempts_def Let_def)
  have run: "iteration snap dest l = (Return None, l, [PauseIfNotPriority, RefreshGameData])"
    if "terminal_check snap dest l = (Some (Return None), l, [])"
    using that s0 s1 s2 by (simp add: iteration_def stages_def)
  have a: "iteration snap dest l = (Return None, l, [PauseIfNotPriority, RefreshGameData])"
    if "DistanceFromMe snap dest \<le> minDistanceToFinishMoving l"
    using that by (intro run) (simp add: terminal_check_def)
  have b: "iteration snap dest l = (Return None, l, [PauseIfNotPriority, RefreshGameData])"
    if "blocked l" "- (2 ^ 62) \<le> minDistanceToFinishMoving l" "minDistanceToFinishMoving l < 2 ^ 62"
       "DistanceFromMe snap dest \<le> 2 * minDistanceToFinishMoving l"
  proof -
    have "int64 (minDistanceToFinishMoving l * 2) = 2 * minDistanceToFinishMoving l"
      using that(2,3) by (simp add: int64_id)
    with that show ?thesis by (intro run) (simp add: terminal_check_def Let_def)
  qed
  have c: "minDistanceToFinishMoving l
            = (case distanceOverride (apply_options options empty_opts) of None \<Rightarrow> 4 | Some d \<Rightarrow> d)"
    if "locals_at world dest (init_locals cfg entry options) n = Some l"
    using locals_at_keeps_opts [OF that]
    by (simp add: init_minDistance DistanceToFinishMoving_def split: option.splits)
  have e: "\<exists>sofar. MoveTo cfg entry world dest options
                     = Some (None, sofar @ [PauseIfNotPriority, RefreshGameData])"
    if "locals_at world dest (init_locals cfg entry options) n = Some l" "snap = world n"
       "DistanceFromMe snap dest \<le> minDistanceToFinishMoving l
               \<or> blocked l \<and> - (2 ^ 62) \<le> minDistanceToFinishMoving l
                  \<and> minDistanceToFinishMoving l < 2 ^ 62
                  \<and> DistanceFromMe snap dest \<le> 2 * minDistanceToFinishMoving l"
  proof -
    from that(3) a b
    have "iteration snap dest l = (Return None, l, [PauseIfNotPriority, RefreshGameData])"
      by blast
    with that(2) have "iteration (world n) dest l = (Return None, l, [PauseIfNotPriority, RefreshGameData])"
      by simp
    from MoveTo_returns [OF that(1) this] show ?thesis .
  qed
  from a b c e show ?thesis by blast
qed

lemma sample_pass_two:
  "\<exists>l. locals_at sample_world sample_mid_dest (init_locals sample_cfg sample_snapshot []) 2 = Some l
       \<and> blocked l \<and> minDistanceToFinishMoving l = 4 \<and> startArea l = 2 \<and> obstacleBypassAttempts l = 0"
  by (simp add: numeral_2_eq_2 iteration_def stages_def stage_defs const_defs sample_defs
      sample_world_def sample_later_def sample_mid_dest_def Let_def)

theorem destination_reached_witness:
  "iteration sample_snapshot sample_near_dest (init_locals sample_cfg sample_snapshot [WithDistanceToFinish 2])
     = (Return None, init_locals sample_cfg sample_snapshot [WithDistanceToFinish 2],
        [PauseIfNotPriority, RefreshGameData])
   \<and> (\<exists>l. locals_at sample_world sample_mid_dest (init_locals sample_cfg sample_snapshot []) 2 = Some l
         \<and> blocked l
         \<and> DistanceFromMe sample_later sample_mid_dest = 7
         \<and> minDistanceToFinishMoving l = 4
         \<and> iteration sample_later sample_mid_dest l = (Return None, l, [PauseIfNotPriority, RefreshGameData]))"
proof -
  let ?l = "init_locals sample_cfg sample_snapshot [WithDistanceToFinish 2]"
  have h: "PendingDrop sample_snapshot = None" "PlayerArea sample_snapshot = startArea ?l"
     "\<not> (CanTeleport sample_snapshot
          \<and> DistanceFromMe sample_snapshot sample_near_dest \<le> minDistanceToFinishMoving ?l
          \<and> obstacleBypassAttempts ?l < 3
          \<and> IsObstacleBetween sample_snapshot (PlayerPosition sample_snapshot) sample_near_dest)"
     "DistanceFromMe sample_snapshot sample_near_dest \<le> minDistanceToFinishMoving ?l"
    by (simp_all add: sample_defs sample_near_dest_def)
  have a: "iteration sample_snapshot sample_near_dest ?l = (Return None, ?l, [PauseIfNotPriority, RefreshGameData])"
    using destination_reached [OF h(1) h(2) h(3)] h(4) by blast
  from sample_pass_two obtain l where
    l: "locals_at sample_world sample_mid_dest (init_locals sample_cfg sample_snapshot []) 2 = Some l"
    and bl: "blocked l" and m: "minDistanceToFinishMoving l = 4" and sa: "startArea l = 2"
    by blast
  have d: "DistanceFromMe sample_later sample_mid_dest = 7"
    by (simp add: sample_later_def sample_defs sample_mid_dest_def)
  have g: "PendingDrop sample_later = None" "PlayerArea sample_later = startArea l"
     "\<not> (CanTeleport sample_later
          \<and> DistanceFromMe sample_later sample_mid_dest \<le> minDistanceToFinishMoving l
          \<and> obstacleBypassAttempts l < 3
          \<and> IsObstacleBetween sample_later (PlayerPosition sample_later) sample_mid_dest)"
    by (simp_all add: sample_later_def sample_defs sa)
  have "iteration sample_later sample_mid_dest l = (Return None, l, [PauseIfNotPriority, RefreshGameData])"
    using destination_reached [OF g(1) g(2) g(3)] bl m d by simp
  with a l bl m d show ?thesis by blast
qed

text \<open>
  Claim C3 as stated fails in the first pass of a call without options for a
  teleporting character two units from the destination with an obstacle in
  between: the distance is below the finish distance 4, and the pass moves the
  character past the destination and starts the next pass.
\<close>

theorem destination_reached_counterexample:
  "locals_at (\<lambda>n. sample_teleport_walled) sample_near_dest (init_locals sample_cfg sample_snapshot []) 0
     = Some sample_locals
   \<and> minDistanceToFinishMoving sample_locals = 4
   \<and> DistanceFromMe sample_teleport_walled sample_near_dest = 2
   \<and> fst (iteration sample_teleport_walled sample_near_dest sample_locals) = Continue
   \<and> snd (snd (iteration sample_teleport_walled sample_near_dest sample_locals))
       = [PauseIfNotPriority, RefreshGameData,
          MoveThroughPath [\<lparr>X = 14, Y = 14\<rparr>] (320 * Millisecond), SleepMs 100]"
  by (simp add: iteration_def stages_def stage_defs const_defs sample_defs
      sample_teleport_walled_def sample_near_dest_def Let_def)

subsection \<open>Bounds on the retries\<close>

lemma wait_for_collision_ends:
  assumes d: "0 < d" and adv: "\<And>i. WaitClock snap i + d \<le> WaitClock snap (Suc i)"
  shows "\<exists>b i. wait_for_collision snap deadline j = Some (b, i) \<and> j \<le> i
          \<and> (if b then GridLoaded snap i \<and> WaitClock snap i < deadline else deadline \<le> WaitClock snap i)
          \<and> (\<forall>m. j \<le> m \<and> m < i \<longrightarrow> WaitClock snap m < deadline)"
proof (induction "nat (deadline - WaitClock snap j)" arbitrary: j rule: less_induct)
  case less
  show ?case
  proof (cases "WaitClock snap j < deadline")
    case False
    then have "wait_for_collision snap deadline j = Some (False, j)"
      by (subst wait_for_collision.simps) simp
    with False show ?thesis by auto
  next
    case True
    show ?thesis
    proof (cases "GridLoaded snap j")
      case loaded: True
      with True have "wait_for_collision snap deadline j = Some (True, j)"
        by (subst wait_for_collision.simps) simp
      with True loaded show ?thesis by auto
    next
      case False
      with True have rec: "wait_for_collision snap deadline j = wait_for_collision snap deadline (Suc j)"
        by (subst wait_for_collision.simps) simp
      have "nat (deadline - WaitClock snap (Suc j)) < nat (deadline - WaitClock snap j)"
        using adv [of j] d True by linarith
      from less [OF this] obtain b i where
        r: "wait_for_collision snap deadline (Suc j) = Some (b, i)" "Suc j \<le> i"
          "if b then GridLoaded snap i \<and> WaitClock snap i < deadline else deadline \<le> WaitClock snap i"
          "\<forall>m. Suc j \<le> m \<and> m < i \<longrightarrow> WaitClock snap m < deadline"
        by blast
      have "\<forall>m. j \<le> m \<and> m < i \<longrightarrow> WaitClock snap m < deadline"
      proof (intro allI impI)
        fix m assume "j \<le> m \<and> m < i"
        then show "WaitClock snap m < deadline"
          using r(4) True by (cases "m = j") auto
      qed
      with r rec show ?thesis
        by (intro exI [of _ b] exI [of _ i]) auto
    qed
  qed
qed

lemma wait_clock_lower:
  assumes "\<And>i. WaitClock snap i + d \<le> WaitClock snap (Suc i)"
  shows "WaitClock snap 0 + int m * d \<le> WaitClock snap m"
proof (induction m)
  case 0
  then show ?case by simp
next
  case (Suc m)
  have "WaitClock snap 0 + int (Suc m) * d = (WaitClock snap 0 + int m * d) + d"
    by (simp add: algebra_simps)
  with Suc assms [of m] show ?case by linarith
qed

lemma area_change_ends:
  assumes "PlayerArea snap \<noteq> startArea l" and d: "0 < d"
    and adv: "\<And>i. WaitClock snap i + d \<le> WaitClock snap (Suc i)"
    and start: "Clock snap 181 \<le> WaitClock snap 0"
  shows "\<exists>i. (int i - 1) * d < 2 * Second
           \<and> (area_change snap l = (Some (Return None), l, polls i)
                \<and> GridLoaded snap i \<and> WaitClock snap i < Clock snap 181 + 2 * Second
              \<or> area_change snap l = (Some (Return (Some (ErrCollisionData (AreaAfterWait snap)))), l, polls i)
                \<and> Clock snap 181 + 2 * Second \<le> WaitClock snap i)"
proof -
  let ?deadline = "Clock snap 181 + 2 * Second"
  from wait_for_collision_ends [OF d adv, of ?deadline 0] obtain b i where
    r: "wait_for_collision snap ?deadline 0 = Some (b, i)"
       "if b then GridLoaded snap i \<and> WaitClock snap i < ?deadline else ?deadline \<le> WaitClock snap i"
       "\<forall>m. m < i \<longrightarrow> WaitClock snap m < ?deadline"
    by auto
  have bound: "(int i - 1) * d < 2 * Second"
  proof (cases i)
    case 0
    with d show ?thesis by (simp add: Second_def)
  next
    case (Suc m)
    with r(3) have "WaitClock snap m < ?deadline" by simp
    with wait_clock_lower [OF adv, of m] start have "int m * d < 2 * Second" by linarith
    with Suc show ?thesis by simp
  qed
  show ?thesis
  proof (cases b)
    case True
    with r assms(1) have "area_change snap l = (Some (Return None), l, polls i)"
      by (simp add: area_change_def)
    with True r(2) bound show ?thesis by auto
  next
    case False
    with r assms(1) have "area_change snap l
        = (Some (Return (Some (ErrCollisionData (AreaAfterWait snap)))), l, polls i)"
      by (simp add: area_change_def)
    with False r(2) bound show ?thesis by auto
  qed
qed

lemma count_interactions_simps:
  "count_interactions [] = 0"
  "count_interactions (InteractWith i # acts) = Suc (count_interactions acts)"
  "count_interactions (RandomMovement # acts) = count_interactions acts"
  "count_interactions (SleepMs n # acts) = count_interactions acts"
  by (simp_all add: count_interactions_def)

lemma door_retry_bound:
  "door_retry snap door n k e = (r, acts) \<Longrightarrow>
     count_interactions acts \<le> n
     \<and> (if \<forall>j<n. InteractResult snap (k + j) \<noteq> None
        then count_interactions acts = n \<and> r = (if n = 0 then e else InteractResult snap (k + n - 1))
        else r = None)"
proof (induction n arbitrary: k e r acts)
  case 0
  then show ?case by (simp add: count_interactions_simps)
next
  case (Suc n)
  show ?case
  proof (cases "InteractResult snap k")
    case None
    with Suc.prems have ra: "r = None" "acts = [InteractWith (ID door)]" by auto
    have neg: "\<not> (\<forall>j<Suc n. InteractResult snap (k + j) \<noteq> None)"
      using None by (auto intro: exI [of _ 0])
    show ?thesis
      unfolding ra by (simp only: neg if_False count_interactions_simps) simp
  next
    case (Some err)
    obtain r' acts' where rec: "door_retry snap door n (Suc k) (Some err) = (r', acts')"
      by (metis prod.exhaust)
    with Suc.prems Some have eq: "r = r'" "acts = [InteractWith (ID door), RandomMovement, SleepMs 250] @ acts'"
      by auto
    have all: "(\<forall>j<Suc n. InteractResult snap (k + j) \<noteq> None) \<longleftrightarrow> (\<forall>j<n. InteractResult snap (Suc k + j) \<noteq> None)"
      using Some by (auto simp: less_Suc_eq_0_disj)
    from Suc.IH [OF rec] show ?thesis
      unfolding eq all using Some
      by (cases n) (auto simp: count_interactions_simps split: if_splits)
  qed
qed

lemma door_handling_bound:
  assumes "door_handling snap dest l = (r, l', acts)"
  shows "count_interactions acts \<le> 5
     \<and> (\<forall>e. r = Some (Return (Some e)) \<longrightarrow> count_interactions acts = 5 \<and> InteractResult snap 4 = Some e)
     \<and> (r \<noteq> None \<longrightarrow> (\<forall>k<5. InteractResult snap k \<noteq> None))"
proof (cases "\<not> CanTeleport snap \<and> HasDoorBetween snap (PlayerPosition snap) dest \<noteq> None")
  case False
  with assms have "r = None" "acts = []"
    by (auto simp: door_handling_def split: if_splits option.splits)
  then show ?thesis by (simp add: count_interactions_simps)
next
  case True
  then obtain door where door: "HasDoorBetween snap (PlayerPosition snap) dest = Some door" by auto
  obtain e a where dr: "door_retry snap door 5 0 None = (e, a)" by (metis prod.exhaust)
  with assms True door have eq: "acts = a" "r = (case e of None \<Rightarrow> None | Some x \<Rightarrow> Some (Return (Some x)))"
    by (auto simp: door_handling_def split: option.splits)
  from door_retry_bound [OF dr] show ?thesis
    unfolding eq by (auto split: if_splits option.splits)
qed


lemma stage_keeps_attempts:
  assumes "s \<in> set (stages snap dest)" "s l = (r, l', a)"
    and "0 \<le> obstacleBypassAttempts l \<and> obstacleBypassAttempts l \<le> 3"
  shows "0 \<le> obstacleBypassAttempts l' \<and> obstacleBypassAttempts l' \<le> 3"
proof -
  from assms(1) consider
      "s = pending_interrupt snap" | "s = area_change snap" | "s = teleport_precheck snap dest"
    | "s = terminal_check snap dest" | "s = door_handling snap dest" | "s = stationary_check snap dest"
    | "s = cast_gate snap" | "s = monster_check snap" | "s = round_trip_check snap"
    | "s = stuck_check snap" | "s = blocked_recovery snap" | "s = navigation_skill snap"
    | "s = path_step snap dest"
    by (auto simp: stages_def)
  then show ?thesis
  proof cases
    case 3
    have "int64 (obstacleBypassAttempts l + 1) = obstacleBypassAttempts l + 1"
      using assms(3) by (intro int64_id) auto
    with 3 assms(2,3) show ?thesis
      by (auto simp: teleport_precheck_def bypass_step_def maxObstacleBypassAttempts_def Let_def
          split: if_splits)
  next
    case 5
    with assms(2,3) show ?thesis by (auto dest: door_handling_locals)
  next
    case 13
    with assms(2,3) show ?thesis
      by (auto simp: path_step_def commit_def bypass_step_def Let_def
          split: if_splits prod.splits lookahead_result.splits)
  qed (use assms(2,3) in \<open>auto simp: stage_defs Let_def split: if_splits option.splits prod.splits\<close>)
qed

lemma iteration_keeps_attempts:
  assumes "iteration snap dest l = (out, l', acts)"
    and "0 \<le> obstacleBypassAttempts l \<and> obstacleBypassAttempts l \<le> 3"
  shows "0 \<le> obstacleBypassAttempts l' \<and> obstacleBypassAttempts l' \<le> 3"
proof -
  let ?P = "\<lambda>x. 0 \<le> obstacleBypassAttempts x \<and> obstacleBypassAttempts x \<le> 3"
  obtain r where rs: "run_stages (stages snap dest) l = (r, l', acts)"
    using assms(1) by (auto simp: iteration_def split: prod.splits option.splits)
  have "?P l'"
  proof (rule run_stages_preserves [where P = ?P and ss = "stages snap dest" and l = l])
    fix s x r x' a
    assume "s \<in> set (stages snap dest)" "?P x" "s x = (r, x', a)"
    then show "?P x'"
      using stage_keeps_attempts [of s snap dest x r x' a] by auto
  next
    show "?P l" by (rule assms(2))
  next
    show "run_stages (stages snap dest) l = (r, l', acts)" by (rule rs)
  qed
  then show ?thesis .
qed

lemma locals_at_attempts:
  "locals_at world dest (init_locals cfg entry options) n = Some l \<Longrightarrow>
     0 \<le> obstacleBypassAttempts l \<and> obstacleBypassAttempts l \<le> 3"
proof (induction n arbitrary: l)
  case 0
  then show ?case by (auto simp: init_locals_def Let_def)
next
  case (Suc n)
  from Suc.prems obtain lp acts where p: "locals_at world dest (init_locals cfg entry options) n = Some lp"
    and i: "iteration (world n) dest lp = (Continue, l, acts)"
    by (auto split: option.splits prod.splits outcome.splits)
  from iteration_keeps_attempts [OF i Suc.IH [OF p]] show ?case .
qed

lemma teleport_precheck_guard:
  "teleport_precheck snap dest l = (Some out, l', acts) \<Longrightarrow> obstacleBypassAttempts l < 3"
  by (auto simp: teleport_precheck_def maxObstacleBypassAttempts_def Let_def split: if_splits)

text \<open>
  Claim C7. The three retries of \<open>MoveTo\<close> are bounded.
  \<^item> At the start of every pass of a call the bypass counter lies between 0 and
    3, and the obstacle check for teleporting issues its bypass only when the
    counter is below 3.
  \<^item> The door retry loop calls \<open>InteractObject\<close> at most 5 times; an error is
    returned only when all 5 calls failed, and it is the error of the fifth.
  \<^item> After a change of area, when the clock advances by at least \<open>d > 0\<close> from
    one test of the wait loop to the next, the wait ends: at its \<open>i\<close>-th test,
    with \<open>(i - 1) * d\<close> below 2 s (at most 20 sleeps of 100 ms); it ends with
    \<open>nil\<close> on a loaded grid before the deadline of 2 s, or with the collision
    data error once the deadline has passed.
\<close>

theorem retries_bounded:
  "(locals_at world dest (init_locals cfg entry options) n = Some l \<longrightarrow>
      0 \<le> obstacleBypassAttempts l \<and> obstacleBypassAttempts l \<le> 3
      \<and> (\<forall>out l' acts. teleport_precheck (world n) dest l = (Some out, l', acts) \<longrightarrow>
            obstacleBypassAttempts l < 3))
   \<and> (door_handling snap dest l = (r, l', acts) \<longrightarrow>
        count_interactions acts \<le> 5
        \<and> (\<forall>e. r = Some (Return (Some e)) \<longrightarrow>
              count_interactions acts = 5 \<and> InteractResult snap 4 = Some e)
        \<and> (r \<noteq> None \<longrightarrow> (\<forall>k<5. InteractResult snap k \<noteq> None)))
   \<and> (PlayerArea snap \<noteq> startArea l \<and> 0 < d
        \<and> (\<forall>i. WaitClock snap i + d \<le> WaitClock snap (Suc i))
        \<and> Clock snap 181 \<le> WaitClock snap 0 \<longrightarrow>
        (\<exists>i. (int i - 1) * d < 2 * Second
           \<and> (d = 100 * Millisecond \<longrightarrow> i \<le> 20)
           \<and> (area_change snap l = (Some (Return None), l, polls i)
                \<and> GridLoaded snap i \<and> WaitClock snap i < Clock snap 181 + 2 * Second
              \<or> area_change snap l = (Some (Return (Some (ErrCollisionData (AreaAfterWait snap)))), l, polls i)
                \<and> Clock snap 181 + 2 * Second \<le> WaitClock snap i)))"
proof -
  have a: "0 \<le> obstacleBypassAttempts l \<and> obstacleBypassAttempts l \<le> 3
      \<and> (\<forall>out l' acts. teleport_precheck (world n) dest l = (Some out, l', acts) \<longrightarrow>
            obstacleBypassAttempts l < 3)"
    if "locals_at world dest (init_locals cfg entry options) n = Some l"
    using locals_at_attempts [OF that] teleport_precheck_guard by blast
  have b: "count_interactions acts \<le> 5
        \<and> (\<forall>e. r = Some (Return (Some e)) \<longrightarrow>
              count_interactions acts = 5 \<and> InteractResult snap 4 = Some e)
        \<and> (r \<noteq> None \<longrightarrow> (\<forall>k<5. InteractResult snap k \<noteq> None))"
    if "door_handling snap dest l = (r, l', acts)"
    using door_handling_bound [OF that] .
  have c: "\<exists>i. (int i - 1) * d < 2 * Second
           \<and> (d = 100 * Millisecond \<longrightarrow> i \<le> 20)
           \<and> (area_change snap l = (Some (Return None), l, polls i)
                \<and> GridLoaded snap i \<and> WaitClock snap i < Clock snap 181 + 2 * Second
              \<or> area_change snap l = (Some (Return (Some (ErrCollisionData (AreaAfterWait snap)))), l, polls i)
                \<and> Clock snap 181 + 2 * Second \<le> WaitClock snap i)"
    if h: "PlayerArea snap \<noteq> startArea l" "0 < d"
        "\<forall>i. WaitClock snap i + d \<le> WaitClock snap (Suc i)" "Clock snap 181 \<le> WaitClock snap 0"
  proof -
    from area_change_ends [OF h(1) h(2) _ h(4)] h(3) obtain i where
      i: "(int i - 1) * d < 2 * Second"
         "area_change snap l = (Some (Return None), l, polls i)
                \<and> GridLoaded snap i \<and> WaitClock snap i < Clock snap 181 + 2 * Second
              \<or> area_change snap l = (Some (Return (Some (ErrCollisionData (AreaAfterWait snap)))), l, polls i)
                \<and> Clock snap 181 + 2 * Second \<le> WaitClock snap i"
      by blast
    have "i \<le> 20" if "d = 100 * Millisecond"
      using i(1) that by (simp add: Millisecond_def Second_def)
    with i show ?thesis by blast
  qed
  from a b c show ?thesis by blast
qed



theorem retries_bounded_witness:
  "(\<exists>l. locals_at (\<lambda>n. sample_teleport_walled) sample_near_dest
           (init_locals sample_cfg sample_snapshot []) 4 = Some l
        \<and> obstacleBypassAttempts l = 3
        \<and> 0 \<le> obstacleBypassAttempts l \<and> obstacleBypassAttempts l \<le> 3)
   \<and> fst (door_handling sample_locked_door sample_dest sample_locals)
        = Some (Return (Some (ErrCollaborator 4)))
   \<and> count_interactions (snd (snd (door_handling sample_locked_door sample_dest sample_locals))) = 5
   \<and> (\<exists>i\<le>20. area_change sample_snapshot sample_moved_locals
          = (Some (Return (Some (ErrCollisionData 3))), sample_moved_locals, polls i))"
proof -
  let ?w = "\<lambda>n::nat. sample_teleport_walled"
  let ?l0 = "init_locals sample_cfg sample_snapshot []"
  have "\<exists>l. locals_at ?w sample_near_dest ?l0 4 = Some l \<and> obstacleBypassAttempts l = 3"
    by (simp add: eval_nat_numeral iteration_def stages_def stage_defs const_defs sample_defs
        sample_teleport_walled_def sample_near_dest_def Let_def)
  then obtain l where l: "locals_at ?w sample_near_dest ?l0 4 = Some l"
    and three: "obstacleBypassAttempts l = 3" by blast
  have a: "0 \<le> obstacleBypassAttempts l \<and> obstacleBypassAttempts l \<le> 3"
    using retries_bounded [where world = ?w and dest = sample_near_dest and cfg = sample_cfg
        and entry = sample_snapshot and options = "[]" and n = 4 and l = l] l by blast
  obtain r l' acts where dh: "door_handling sample_locked_door sample_dest sample_locals = (r, l', acts)"
    by (metis prod_cases3)
  have r: "r = Some (Return (Some (ErrCollaborator 4)))"
    using dh by (simp add: door_handling_def sample_locked_door_def sample_defs eval_nat_numeral)
  have b: "count_interactions acts = 5"
    using retries_bounded [where snap = sample_locked_door and dest = sample_dest
        and l = sample_locals and r = r and l' = l' and acts = acts] dh r
    by blast
  have h: "PlayerArea sample_snapshot \<noteq> startArea sample_moved_locals \<and> 0 < 100 * Millisecond
        \<and> (\<forall>i. WaitClock sample_snapshot i + 100 * Millisecond \<le> WaitClock sample_snapshot (Suc i))
        \<and> Clock sample_snapshot 181 \<le> WaitClock sample_snapshot 0"
    by (simp add: sample_moved_locals_def sample_defs Millisecond_def Second_def algebra_simps)
  have g: "\<not> GridLoaded sample_snapshot i" for i
    by (simp add: sample_defs)
  have aw: "AreaAfterWait sample_snapshot = 3"
    by (simp add: sample_defs)
  have c: "\<exists>i\<le>20. area_change sample_snapshot sample_moved_locals
          = (Some (Return (Some (ErrCollisionData 3))), sample_moved_locals, polls i)"
    using retries_bounded [where snap = sample_snapshot and l = sample_moved_locals
        and d = "100 * Millisecond"] h g aw by metis
  from a l three dh r b c show ?thesis by auto
qed

subsection \<open>The ignore-shrines flag\<close>

lemma apply_option_shrines:
  "(apply_option opt (mo\<lparr>ignoreShrines := b\<rparr>))\<lparr>ignoreShrines := c\<rparr>
     = (apply_option opt mo)\<lparr>ignoreShrines := c\<rparr>"
  by (cases opt) simp_all

lemma apply_options_shrines:
  "(apply_options os (mo\<lparr>ignoreShrines := b\<rparr>))\<lparr>ignoreShrines := c\<rparr>
     = (apply_options os mo)\<lparr>ignoreShrines := c\<rparr>"
proof (induction os arbitrary: mo b)
  case Nil
  then show ?case by simp
next
  case (Cons opt os)
  have "apply_option opt (mo\<lparr>ignoreShrines := b\<rparr>)
      = (apply_option opt mo)\<lparr>ignoreShrines := ignoreShrines (apply_option opt (mo\<lparr>ignoreShrines := b\<rparr>))\<rparr>"
    by (cases opt) simp_all
  then show ?case
    using Cons.IH by (metis apply_options.simps(2))
qed

lemma apply_options_append:
  "apply_options (os1 @ os2) mo = apply_options os2 (apply_options os1 mo)"
  by (induction os1 arbitrary: mo) simp_all

lemma apply_options_drop_shrines:
  "(apply_options (os1 @ IgnoreShrines # os2) mo)\<lparr>ignoreShrines := c\<rparr>
     = (apply_options (os1 @ os2) mo)\<lparr>ignoreShrines := c\<rparr>"
  by (simp add: apply_options_append apply_options_shrines)

lemma same_but_shrines:
  assumes "a\<lparr>ignoreShrines := c\<rparr> = b\<lparr>ignoreShrines := c\<rparr>"
  shows "distanceOverride a = distanceOverride b" "clearPathOverride a = clearPathOverride b"
proof -
  have "distanceOverride (a\<lparr>ignoreShrines := c\<rparr>) = distanceOverride (b\<lparr>ignoreShrines := c\<rparr>)"
    using assms by simp
  then show "distanceOverride a = distanceOverride b" by simp
  have "clearPathOverride (a\<lparr>ignoreShrines := c\<rparr>) = clearPathOverride (b\<lparr>ignoreShrines := c\<rparr>)"
    using assms by simp
  then show "clearPathOverride a = clearPathOverride b" by simp
qed

lemma init_locals_drop_shrines:
  "init_locals cfg entry (os1 @ IgnoreShrines # os2) = init_locals cfg entry (os1 @ os2)"
proof -
  let ?c = "\<not> InteractWithShrines cfg"
  note e = apply_options_drop_shrines [where ?os1.0 = os1 and ?os2.0 = os2 and mo = empty_opts and c = ?c]
  show ?thesis
    unfolding init_locals_def Let_def
    using e same_but_shrines [OF e] by simp
qed


lemma stage_ignores_shrines:
  assumes "s \<in> set (stages snap dest)"
  shows "s (l\<lparr>opts := (opts l)\<lparr>ignoreShrines := b\<rparr>\<rparr>)
       = (case s l of (r, l', a) \<Rightarrow> (r, l'\<lparr>opts := (opts l')\<lparr>ignoreShrines := b\<rparr>\<rparr>, a))"
proof -
  from assms(1) consider
      "s = pending_interrupt snap" | "s = area_change snap" | "s = teleport_precheck snap dest"
    | "s = terminal_check snap dest" | "s = door_handling snap dest" | "s = stationary_check snap dest"
    | "s = cast_gate snap" | "s = monster_check snap" | "s = round_trip_check snap"
    | "s = stuck_check snap" | "s = blocked_recovery snap" | "s = navigation_skill snap"
    | "s = path_step snap dest"
    by (auto simp: stages_def)
  then show ?thesis
  proof cases
    case 5
    then show ?thesis
      by (auto simp: door_handling_def split: if_splits option.splits prod.splits)
  next
    case 13
    then show ?thesis
      by (auto simp: path_step_def commit_def bypass_step_def Let_def
          split: if_splits prod.splits lookahead_result.splits)
  qed (auto simp: stage_defs Let_def split: if_splits option.splits prod.splits)
qed


lemma run_stages_ignores_shrines:
  assumes "set ss \<subseteq> set (stages snap dest)"
  shows "run_stages ss (l\<lparr>opts := (opts l)\<lparr>ignoreShrines := b\<rparr>\<rparr>)
       = (case run_stages ss l of (r, l', a) \<Rightarrow> (r, l'\<lparr>opts := (opts l')\<lparr>ignoreShrines := b\<rparr>\<rparr>, a))"
  using assms
proof (induction ss arbitrary: l)
  case Nil
  then show ?case by simp
next
  case (Cons s ss)
  then have s: "s \<in> set (stages snap dest)" and ss: "set ss \<subseteq> set (stages snap dest)"
    by auto
  show ?case
    by (simp add: stage_ignores_shrines [OF s] Cons.IH [OF ss] split: prod.splits option.splits)
qed

lemma iteration_ignores_shrines:
  "iteration snap dest (l\<lparr>opts := (opts l)\<lparr>ignoreShrines := b\<rparr>\<rparr>)
     = (case iteration snap dest l of
          (out, l', a) \<Rightarrow> (out, l'\<lparr>opts := (opts l')\<lparr>ignoreShrines := b\<rparr>\<rparr>, a))"
  by (simp add: iteration_def run_stages_ignores_shrines [OF subset_refl]
      split: prod.splits option.splits)

text \<open>
  Claim C10. Two calls of \<open>MoveTo\<close> whose option lists differ only in one
  \<open>IgnoreShrines()\<close> behave alike: the same game gives the same returned error
  and the same actions on the collaborators (or both calls never return). The
  local variables are already the same when the loop starts, because
  \<open>ignoreShrines\<close> is assigned from the character configuration after the options
  ran; and no pass of the loop reads the flag: with the flag set to any value, a
  pass ends the same way, does the same actions and leaves the same locals, up
  to the flag.
\<close>

theorem ignore_shrines_no_effect:
  "MoveTo cfg entry world dest (os1 @ IgnoreShrines # os2) = MoveTo cfg entry world dest (os1 @ os2)
   \<and> init_locals cfg entry (os1 @ IgnoreShrines # os2) = init_locals cfg entry (os1 @ os2)
   \<and> ignoreShrines (opts (init_locals cfg entry (os1 @ os2))) = (\<not> InteractWithShrines cfg)
   \<and> iteration snap dest (l\<lparr>opts := (opts l)\<lparr>ignoreShrines := b\<rparr>\<rparr>)
       = (case iteration snap dest l of
            (out, l', a) \<Rightarrow> (out, l'\<lparr>opts := (opts l')\<lparr>ignoreShrines := b\<rparr>\<rparr>, a))"
  using iteration_ignores_shrines [where snap = snap and dest = dest and l = l and b = b]
  by (simp add: MoveTo_def init_locals_drop_shrines init_opts)

theorem ignore_shrines_no_effect_witness:
  "MoveTo sample_cfg sample_snapshot (\<lambda>n. sample_snapshot) sample_near_dest [IgnoreShrines]
     = Some (None, [PauseIfNotPriority, RefreshGameData])
   \<and> MoveTo sample_cfg sample_snapshot (\<lambda>n. sample_snapshot) sample_near_dest []
     = Some (None, [PauseIfNotPriority, RefreshGameData])"
proof -
  have a: "MoveTo sample_cfg sample_snapshot (\<lambda>n. sample_snapshot) sample_near_dest []
     = Some (None, [PauseIfNotPriority, RefreshGameData])"
    unfolding MoveTo_def
    by (subst move_loop.simps)
       (simp add: iteration_def stages_def stage_defs const_defs sample_defs sample_near_dest_def Let_def)
  have "MoveTo sample_cfg sample_snapshot (\<lambda>n. sample_snapshot) sample_near_dest ([] @ IgnoreShrines # [])
     = MoveTo sample_cfg sample_snapshot (\<lambda>n. sample_snapshot) sample_near_dest ([] @ [])"
    using ignore_shrines_no_effect [of sample_cfg sample_snapshot "\<lambda>n. sample_snapshot" sample_near_dest "[]" "[]"]
    by blast
  with a show ?thesis by simp
qed

end
